theory Spec2Isabelle
  imports Main
begin

section \<open>The notebook view-model: data\<close>

text \<open>
  Cell view-models are objects: the notebook holds references to them, hooks its handlers
  into their event sources and compares them by identity. A reference is a number and
  the objects live in a store. A slot of a JavaScript array holds a reference or
  \<^verbatim>\<open>undefined\<close> (written \<open>None\<close>): \<^verbatim>\<open>moveCell\<close> can put
  \<^verbatim>\<open>undefined\<close> into the array, and every later method call on such a slot raises
  a \<^verbatim>\<open>TypeError\<close>.
\<close>

type_synonym cellref = nat

type_synonym slot = "cellref option"

datatype CellType = Code | Markdown

text \<open>The four handlers of the notebook that \<^verbatim>\<open>hookCellEvents\<close> attaches to a cell.\<close>

datatype handler =
    OnEditorSelectionChanging
  | OnEditorSelectionChanged
  | OnCellModified
  | OnTextChanged

text \<open>
  The exceptions of the source. The first five are its \<^verbatim>\<open>throw new Error(...)\<close>
  statements: \<open>OutOfRange i n\<close> is "Bad index i for new cell in notebook with n existing
  cells!", \<open>ReadOnlyViolation\<close> is "The file for this notebook is readonly, it can't be
  saved this way.", \<open>NeverSaved\<close> is "Notebook has never been saved before, use saveAs
  function for the first save.", \<open>CellModelNotSpecified\<close> is "Cell model not specified."
  and \<open>UnexpectedCellType\<close> is "Unexpected cell type: ...". \<open>TypeError\<close> is what the
  runtime raises for a property access on \<^verbatim>\<open>undefined\<close>, and \<open>IOFailure\<close> is a
  rejection of the storage collaborator.
\<close>

datatype error =
    OutOfRange int nat
  | ReadOnlyViolation
  | NeverSaved
  | CellModelNotSpecified
  | UnexpectedCellType
  | TypeError
  | IOFailure string

text \<open>
  Modelled from the spec: the cell view-model classes (cell.ts, code-cell.ts,
  markdown-cell.ts) are not part of the sources at hand. A cell has an id, a type, its
  text, its outputs and errors, the selected and executing flags, and one event source
  for each event the notebook hooks. An event source is the list of the handlers attached
  to it, in the order of attachment.
\<close>

record cell =
  c_id :: string
  c_cellType :: CellType
  c_text :: string
  c_output :: "string list"
  c_errors :: "string list"
  c_selected :: bool
  c_executing :: bool
  c_onEditorSelectionChanging :: "handler list"
  c_onEditorSelectionChanged :: "handler list"
  c_onModified :: "handler list"
  c_onTextChanged :: "handler list"

text \<open>The storage id is an object of the storage collaborator with two readers.\<close>

record INotebookStorageId =
  displayName :: string
  getContainingPath :: string

record ISerializedCell1 =
  sc_id :: string
  sc_cellType :: "CellType option"
  sc_code :: string
  sc_output :: "string list"
  sc_errors :: "string list"

text \<open>
  The serialized document. Every field but the version can be absent; an entry of a cell
  array can be \<^verbatim>\<open>null\<close>; a cell type other than the two of \<open>CellType\<close> is
  \<open>None\<close>. The version-2 shape keeps language and cells inside \<open>sheet\<close>.
\<close>

record ISerializedSheet =
  sh_id :: string
  sh_language :: "string option"
  sh_cells :: "ISerializedCell1 option list option"

record ISerializedNotebook1 =
  sn_version :: nat
  sn_nodejs :: "string option"
  sn_language :: "string option"
  sn_description :: "string option"
  sn_cells :: "ISerializedCell1 option list option"
  sn_sheet :: "ISerializedSheet option"

record INotebookViewModel =
  storageId :: INotebookStorageId
  instanceId :: string
  nodejsVersion :: "string option"
  language :: string
  description :: "string option"
  cells :: "slot list"
  executing :: bool
  selectedCell :: slot
  modified :: bool
  defaultNodejsVersion :: string
  unsaved :: bool
  readOnly :: bool

text \<open>The events the notebook raises on its own event sources.\<close>

datatype nbevent =
    CellsChanged
  | SelectedCellChanged
  | Modified
  | FlushChanges
  | EvalStarted
  | EvalCompleted
  | TextChanged cellref

text \<open>
  What a run leaves outside the notebook and its cells, in order: the events raised for
  outside listeners, the calls into cells whose effect is outside the view-model, the log,
  the notifications, the writes to storage and the commands sent to the evaluation engine.
\<close>

datatype effect =
    Raise nbevent
  | CellFlushChanges cellref
  | CellNotebookEvalStarted cellref
  | LogInfo string
  | LogError string
  | Warn string
  | NotifyError string
  | WriteNotebook ISerializedNotebook1 INotebookStorageId
  | StopEvaluation string
  | EvalNotebook string ISerializedNotebook1 string
  | EvalToCell string ISerializedNotebook1 string string
  | EvalSingleCell string ISerializedNotebook1 string string

text \<open>
  The store of cell objects, the trace of effects and the next unused reference; a
  \<open>world\<close> is that together with one notebook object (the \<^verbatim>\<open>this\<close> of the
  methods of \<^verbatim>\<open>NotebookViewModel\<close>).
\<close>

record env =
  heap :: "cellref \<Rightarrow> cell"
  trace :: "effect list"
  fresh :: cellref

record world = env +
  nb :: INotebookViewModel

text \<open>
  A method either returns or throws; in both cases the state it has reached stays. The
  methods are modelled as run to completion: the single logical thread of the source is
  taken without interleaving at the \<^verbatim>\<open>await\<close> points.
\<close>

datatype 's outcome = Returned 's | Thrown error 's

definition andThen :: "'s outcome \<Rightarrow> ('s \<Rightarrow> 's outcome) \<Rightarrow> 's outcome" where
  "andThen r f = (case r of Returned s \<Rightarrow> f s | Thrown e s \<Rightarrow> Thrown e s)"

section \<open>JavaScript arrays\<close>

text \<open>
  \<^verbatim>\<open>Array.prototype.splice(start, deleteCount, ...items)\<close> on integer arguments: a
  negative start counts from the end, both are clamped to the array. The result is the
  removed elements and the array after the call.
\<close>

definition array_splice_start :: "int \<Rightarrow> nat \<Rightarrow> nat" where
  "array_splice_start start len =
     (if start < 0 then nat (max (int len + start) 0) else nat (min start (int len)))"

definition array_splice :: "int \<Rightarrow> int \<Rightarrow> 'a list \<Rightarrow> 'a list \<Rightarrow> 'a list \<times> 'a list" where
  "array_splice start deleteCount items xs =
     (let s = array_splice_start start (length xs);
          d = nat (min (max deleteCount 0) (int (length xs) - int s))
      in (take d (drop s xs), take s xs @ items @ drop (s + d) xs))"


text \<open>\<^verbatim>\<open>xs[0]\<close>, and the first variable of an array destructuring: \<^verbatim>\<open>undefined\<close> on an empty array.\<close>

fun first_slot :: "slot list \<Rightarrow> slot" where
  "first_slot [] = None"
| "first_slot (x # xs) = x"

section \<open>Event sources and cells\<close>

text \<open>
  Modelled from the spec: the class \<^verbatim>\<open>EventSource\<close> of the utils package is not part
  of the sources at hand. Attaching a handler twice keeps one attachment; detaching
  removes it.
\<close>

definition attach :: "handler \<Rightarrow> handler list \<Rightarrow> handler list" where
  "attach h hs = (if h \<in> set hs then hs else hs @ [h])"

definition detach :: "handler \<Rightarrow> handler list \<Rightarrow> handler list" where
  "detach h hs = filter (\<lambda>x. x \<noteq> h) hs"

definition hookCellEvents :: "cellref \<Rightarrow> world \<Rightarrow> world" where
  "hookCellEvents r w =
     w\<lparr>heap := (heap w)(r := (heap w r)
        \<lparr>c_onEditorSelectionChanging := attach OnEditorSelectionChanging (c_onEditorSelectionChanging (heap w r)),
         c_onEditorSelectionChanged := attach OnEditorSelectionChanged (c_onEditorSelectionChanged (heap w r)),
         c_onModified := attach OnCellModified (c_onModified (heap w r)),
         c_onTextChanged := attach OnTextChanged (c_onTextChanged (heap w r))\<rparr>)\<rparr>"

definition unhookCellEvents :: "cellref \<Rightarrow> world \<Rightarrow> world" where
  "unhookCellEvents r w =
     w\<lparr>heap := (heap w)(r := (heap w r)
        \<lparr>c_onEditorSelectionChanging := detach OnEditorSelectionChanging (c_onEditorSelectionChanging (heap w r)),
         c_onEditorSelectionChanged := detach OnEditorSelectionChanged (c_onEditorSelectionChanged (heap w r)),
         c_onModified := detach OnCellModified (c_onModified (heap w r)),
         c_onTextChanged := detach OnTextChanged (c_onTextChanged (heap w r))\<rparr>)\<rparr>"

text \<open>
  Modelled from the spec: \<^verbatim>\<open>select\<close> and \<^verbatim>\<open>deselect\<close> of a cell are not part
  of the sources at hand. A cell notifies the notebook before it becomes selected, then
  once the selection is committed; the notifications reach the notebook only through the
  handlers hooked into the cell. The two handlers are the notebook's own
  (\<^verbatim>\<open>onEditorSelectionChanging\<close>, \<^verbatim>\<open>onEditorSelectionChanged\<close>).
\<close>

definition cell_deselect :: "cellref \<Rightarrow> world \<Rightarrow> world" where
  "cell_deselect r w = w\<lparr>heap := (heap w)(r := (heap w r)\<lparr>c_selected := False\<rparr>)\<rparr>"

definition deselect :: "world \<Rightarrow> world" where
  "deselect w =
     (case selectedCell (nb w) of
        None \<Rightarrow> w
      | Some s \<Rightarrow> (let w1 = cell_deselect s w in w1\<lparr>nb := (nb w1)\<lparr>selectedCell := None\<rparr>\<rparr>))"

definition onEditorSelectionChanging :: "cellref \<Rightarrow> bool \<Rightarrow> world \<Rightarrow> world" where
  "onEditorSelectionChanging r willBeSelected w = (if willBeSelected then deselect w else w)"

definition onEditorSelectionChanged :: "cellref \<Rightarrow> world \<Rightarrow> world" where
  "onEditorSelectionChanged r w =
     (if selectedCell (nb w) = Some r then w
      else w\<lparr>nb := (nb w)\<lparr>selectedCell := Some r\<rparr>, trace := trace w @ [Raise SelectedCellChanged]\<rparr>)"

definition cell_select :: "cellref \<Rightarrow> world \<Rightarrow> world" where
  "cell_select r w =
     (let w1 = (if OnEditorSelectionChanging \<in> set (c_onEditorSelectionChanging (heap w r))
                then onEditorSelectionChanging r True w else w);
          w2 = w1\<lparr>heap := (heap w1)(r := (heap w1 r)\<lparr>c_selected := True\<rparr>)\<rparr>
      in if OnEditorSelectionChanged \<in> set (c_onEditorSelectionChanged (heap w2 r))
         then onEditorSelectionChanged r w2 else w2)"

section \<open>The notebook view-model: cells\<close>

definition setModified :: "bool \<Rightarrow> world \<Rightarrow> world" where
  "setModified m w =
     (if modified (nb w) = m then w
      else w\<lparr>nb := (nb w)\<lparr>modified := m\<rparr>, trace := trace w @ [Raise Modified]\<rparr>)"

definition notifyModified :: "world \<Rightarrow> world" where
  "notifyModified w = setModified True w"

definition clearModified :: "world \<Rightarrow> world" where
  "clearModified w = setModified False w"

text \<open>
  Modelled from the spec: \<^verbatim>\<open>flushChanges\<close> of a cell is not part of the sources at
  hand. It commits edits that are pending outside the view-model, so it is an entry of
  the trace.
\<close>

definition cell_flushChanges :: "cellref \<Rightarrow> world \<Rightarrow> world" where
  "cell_flushChanges r w = w\<lparr>trace := trace w @ [CellFlushChanges r]\<rparr>"

text \<open>\<^verbatim>\<open>flushChanges\<close> raises the pre-save event, then asks every cell to flush.\<close>

fun flushCells :: "slot list \<Rightarrow> world \<Rightarrow> world outcome" where
  "flushCells [] w = Returned w"
| "flushCells (None # cs) w = Thrown TypeError w"
| "flushCells (Some r # cs) w = flushCells cs (cell_flushChanges r w)"

definition flushChanges :: "world \<Rightarrow> world outcome" where
  "flushChanges w = flushCells (cells (nb w)) (w\<lparr>trace := trace w @ [Raise FlushChanges]\<rparr>)"


definition addCell :: "cellref \<Rightarrow> int \<Rightarrow> world \<Rightarrow> world outcome" where
  "addCell cellViewModel cellIndex w =
     andThen (flushChanges (hookCellEvents cellViewModel w)) (\<lambda>w2.
       if cellIndex > int (length (cells (nb w2)))
       then Thrown (OutOfRange cellIndex (length (cells (nb w2)))) w2
       else Returned (notifyModified
              (w2\<lparr>nb := (nb w2)\<lparr>cells := snd (array_splice cellIndex 0 [Some cellViewModel] (cells (nb w2)))\<rparr>,
                  trace := trace w2 @ [Raise CellsChanged]\<rparr>)))"



text \<open>
  \<^verbatim>\<open>moveCell\<close> copies the array, splices the source element out and splices it in at
  the destination of the shortened array. When the first splice removes nothing, the
  moved element is \<^verbatim>\<open>undefined\<close>, and that is what the second splice inserts.
\<close>

definition reorderedCells :: "int \<Rightarrow> int \<Rightarrow> slot list \<Rightarrow> slot list" where
  "reorderedCells sourceIndex destIndex cs =
     (let (removed, rest) = array_splice sourceIndex 1 [] cs;
          movedCell = first_slot removed
      in snd (array_splice destIndex 0 [movedCell] rest))"


text \<open>\<^verbatim>\<open>findCellIndex\<close>: the loop from index \<open>cellIndex\<close> on.\<close>

fun findCellIndexFrom :: "string \<Rightarrow> slot list \<Rightarrow> nat \<Rightarrow> (cellref \<Rightarrow> cell) \<Rightarrow> error + nat option" where
  "findCellIndexFrom cellId [] cellIndex h = Inr None"
| "findCellIndexFrom cellId (None # cs) cellIndex h = Inl TypeError"
| "findCellIndexFrom cellId (Some r # cs) cellIndex h =
     (if c_id (h r) = cellId then Inr (Some cellIndex)
      else findCellIndexFrom cellId cs (cellIndex + 1) h)"

definition findCellIndex :: "string \<Rightarrow> world \<Rightarrow> error + nat option" where
  "findCellIndex cellId w = findCellIndexFrom cellId (cells (nb w)) 0 (heap w)"

definition findCell :: "string \<Rightarrow> world \<Rightarrow> error + slot" where
  "findCell cellId w =
     (case findCellIndex cellId w of
        Inl e \<Rightarrow> Inl e
      | Inr None \<Rightarrow> Inr None
      | Inr (Some cellIndex) \<Rightarrow> Inr (cells (nb w) ! cellIndex))"

section \<open>The notebook view-model: serialization\<close>

definition notebookVersion :: nat where
  "notebookVersion = 3"

text \<open>\<^verbatim>\<open>x || d\<close> on an optional string: \<^verbatim>\<open>undefined\<close> and the empty string are falsy.\<close>

definition orDefault :: "string option \<Rightarrow> string \<Rightarrow> string" where
  "orDefault x d = (case x of None \<Rightarrow> d | Some v \<Rightarrow> if v = [] then d else v)"

definition getNodejsVersion :: "INotebookViewModel \<Rightarrow> string" where
  "getNodejsVersion n = orDefault (nodejsVersion n) (defaultNodejsVersion n)"

text \<open>
  Modelled from the spec: \<^verbatim>\<open>serialize\<close>, \<^verbatim>\<open>serializeForEval\<close> and the static
  \<^verbatim>\<open>deserialize\<close> of the cell classes are not part of the sources at hand. A
  serialized cell carries the id, the type, the text, the outputs and the errors; the
  form for evaluation leaves outputs and errors out. A deserialized cell is a new
  object, not selected, not executing, with nothing attached to its event sources.
\<close>

definition cell_serialize :: "cell \<Rightarrow> ISerializedCell1" where
  "cell_serialize c =
     \<lparr>sc_id = c_id c, sc_cellType = Some (c_cellType c), sc_code = c_text c,
      sc_output = c_output c, sc_errors = c_errors c\<rparr>"

definition cell_serializeForEval :: "cell \<Rightarrow> ISerializedCell1" where
  "cell_serializeForEval c =
     \<lparr>sc_id = c_id c, sc_cellType = Some (c_cellType c), sc_code = c_text c,
      sc_output = [], sc_errors = []\<rparr>"

definition cell_deserialize :: "CellType \<Rightarrow> ISerializedCell1 \<Rightarrow> cell" where
  "cell_deserialize t sc =
     \<lparr>c_id = sc_id sc, c_cellType = t, c_text = sc_code sc, c_output = sc_output sc,
      c_errors = sc_errors sc, c_selected = False, c_executing = False,
      c_onEditorSelectionChanging = [], c_onEditorSelectionChanged = [],
      c_onModified = [], c_onTextChanged = []\<rparr>"

definition newCell :: "cell \<Rightarrow> env \<Rightarrow> cellref \<times> env" where
  "newCell c e = (fresh e, e\<lparr>heap := (heap e)(fresh e := c), fresh := Suc (fresh e)\<rparr>)"

definition CodeCellViewModel_deserialize :: "ISerializedCell1 \<Rightarrow> env \<Rightarrow> cellref \<times> env" where
  "CodeCellViewModel_deserialize sc e = newCell (cell_deserialize Code sc) e"

definition MarkdownCellViewModel_deserialize :: "ISerializedCell1 \<Rightarrow> env \<Rightarrow> cellref \<times> env" where
  "MarkdownCellViewModel_deserialize sc e = newCell (cell_deserialize Markdown sc) e"

fun cellViewModelFactory :: "ISerializedCell1 option \<Rightarrow> env \<Rightarrow> error + cellref \<times> env" where
  "cellViewModelFactory None e = Inl CellModelNotSpecified"
| "cellViewModelFactory (Some cell) e =
     (case sc_cellType cell of
        Some Code \<Rightarrow> Inr (CodeCellViewModel_deserialize cell e)
      | Some Markdown \<Rightarrow> Inr (MarkdownCellViewModel_deserialize cell e)
      | None \<Rightarrow> Inl UnexpectedCellType)"

text \<open>\<^verbatim>\<open>cells.map(cell => cell.serialize())\<close>, with the serializer of a cell as argument.\<close>

fun serializeCells ::
  "(cell \<Rightarrow> ISerializedCell1) \<Rightarrow> slot list \<Rightarrow> (cellref \<Rightarrow> cell) \<Rightarrow> error + ISerializedCell1 option list" where
  "serializeCells f [] h = Inr []"
| "serializeCells f (None # cs) h = Inl TypeError"
| "serializeCells f (Some r # cs) h =
     (case serializeCells f cs h of
        Inl e \<Rightarrow> Inl e
      | Inr ys \<Rightarrow> Inr (Some (f (h r)) # ys))"

definition serialize :: "world \<Rightarrow> error + ISerializedNotebook1" where
  "serialize w =
     (case serializeCells cell_serialize (cells (nb w)) (heap w) of
        Inl e \<Rightarrow> Inl e
      | Inr cs \<Rightarrow>
          Inr \<lparr>sn_version = notebookVersion, sn_nodejs = nodejsVersion (nb w),
               sn_language = Some (language (nb w)), sn_description = description (nb w),
               sn_cells = Some cs, sn_sheet = None\<rparr>)"

definition serializeForEval :: "world \<Rightarrow> error + ISerializedNotebook1" where
  "serializeForEval w =
     (case serializeCells cell_serializeForEval (cells (nb w)) (heap w) of
        Inl e \<Rightarrow> Inl e
      | Inr cs \<Rightarrow>
          Inr \<lparr>sn_version = notebookVersion, sn_nodejs = nodejsVersion (nb w),
               sn_language = Some (language (nb w)), sn_description = None,
               sn_cells = Some cs, sn_sheet = None\<rparr>)"

text \<open>The constructor: the fields, then \<^verbatim>\<open>hookCellEvents\<close> for every cell passed in.\<close>

fun hookCells :: "slot list \<Rightarrow> world \<Rightarrow> world outcome" where
  "hookCells [] w = Returned w"
| "hookCells (None # cs) w = Thrown TypeError w"
| "hookCells (Some r # cs) w = hookCells cs (hookCellEvents r w)"

text \<open>The last argument but one is the instance id, which the source draws with \<^verbatim>\<open>uuid()\<close>.\<close>

definition new_NotebookViewModel ::
  "INotebookStorageId \<Rightarrow> string option \<Rightarrow> string \<Rightarrow> slot list \<Rightarrow> string option \<Rightarrow> bool \<Rightarrow> bool
     \<Rightarrow> string \<Rightarrow> string \<Rightarrow> env \<Rightarrow> world outcome" where
  "new_NotebookViewModel notebookStorageId nodejsVersion' language' cells' description' unsaved'
       readOnly' defaultNodeJsVersion uuid e =
     hookCells cells'
       \<lparr>heap = heap e, trace = trace e, fresh = fresh e,
        nb = \<lparr>storageId = notebookStorageId, instanceId = uuid, nodejsVersion = nodejsVersion',
              language = language', description = description', cells = cells',
              executing = False, selectedCell = None, modified = False,
              defaultNodejsVersion = defaultNodeJsVersion, unsaved = unsaved',
              readOnly = readOnly'\<rparr>\<rparr>"

text \<open>\<^verbatim>\<open>cells.map(cell => cellViewModelFactory(cell))\<close>: stops at the first cell the factory rejects.\<close>

fun deserializeCells :: "ISerializedCell1 option list \<Rightarrow> env \<Rightarrow> error + slot list \<times> env" where
  "deserializeCells [] e = Inr ([], e)"
| "deserializeCells (c # cs) e =
     (case cellViewModelFactory c e of
        Inl err \<Rightarrow> Inl err
      | Inr (r, e1) \<Rightarrow>
          (case deserializeCells cs e1 of
             Inl err \<Rightarrow> Inl err
           | Inr (rs, e2) \<Rightarrow> Inr (Some r # rs, e2)))"

text \<open>\<^verbatim>\<open>cells && cells.map(...) || []\<close>: an array, also an empty one, is truthy.\<close>

definition cellsOrEmpty :: "ISerializedCell1 option list option \<Rightarrow> env \<Rightarrow> error + slot list \<times> env" where
  "cellsOrEmpty cs e = (case cs of None \<Rightarrow> Inr ([], e) | Some scs \<Rightarrow> deserializeCells scs e)"

definition deserialize ::
  "INotebookStorageId \<Rightarrow> bool \<Rightarrow> bool \<Rightarrow> string \<Rightarrow> string \<Rightarrow> ISerializedNotebook1 \<Rightarrow> env
     \<Rightarrow> error + world" where
  "deserialize notebookStorageId unsaved' readOnly' defaultNodejsVersion' uuid input e =
     (let language' = (case sn_sheet input of
                         Some sheet \<Rightarrow> orDefault (sh_language sheet) ''javascript''
                       | None \<Rightarrow> orDefault (sn_language input) ''javascript'');
          cells' = (case sn_sheet input of
                      Some sheet \<Rightarrow> cellsOrEmpty (sh_cells sheet) e
                    | None \<Rightarrow> cellsOrEmpty (sn_cells input) e)
      in case cells' of
           Inl err \<Rightarrow> Inl err
         | Inr (cs, e1) \<Rightarrow>
             (case new_NotebookViewModel notebookStorageId (sn_nodejs input) language' cs
                     (sn_description input) unsaved' readOnly' defaultNodejsVersion' uuid e1 of
                Returned w \<Rightarrow> Inr w
              | Thrown err w \<Rightarrow> Inl err))"

section \<open>The notebook view-model: saving\<close>

definition logInfo :: "string \<Rightarrow> world \<Rightarrow> world" where
  "logInfo msg w = w\<lparr>trace := trace w @ [LogInfo msg]\<rparr>"

text \<open>
  \<^verbatim>\<open>_save\<close>. The storage collaborator is the argument \<open>writeNotebook\<close>: it answers
  \<open>None\<close> when the write is done and the error when it rejects.
\<close>

definition private_save ::
  "INotebookStorageId \<Rightarrow> (ISerializedNotebook1 \<Rightarrow> INotebookStorageId \<Rightarrow> error option) \<Rightarrow> world
     \<Rightarrow> world outcome" where
  "private_save notebookId writeNotebook w =
     andThen (flushChanges w) (\<lambda>w1.
       case serialize w1 of
         Inl e \<Rightarrow> Thrown e w1
       | Inr serialized \<Rightarrow>
           (case writeNotebook serialized notebookId of
              Some e \<Rightarrow> Thrown e w1
            | None \<Rightarrow>
                Returned (clearModified
                  (w1\<lparr>trace := trace w1 @ [WriteNotebook serialized notebookId]\<rparr>))))"

definition save ::
  "(ISerializedNotebook1 \<Rightarrow> INotebookStorageId \<Rightarrow> error option) \<Rightarrow> world \<Rightarrow> world outcome" where
  "save writeNotebook w =
     (if readOnly (nb w) then Thrown ReadOnlyViolation w
      else (let w1 = logInfo (''Saving notebook: '' @ displayName (storageId (nb w))) w in
            if unsaved (nb w1) then Thrown NeverSaved w1
            else andThen (private_save (storageId (nb w1)) writeNotebook w1) (\<lambda>w2.
                   Returned (logInfo (''Saved notebook: '' @ displayName (storageId (nb w2))) w2))))"

definition saveAs ::
  "INotebookStorageId \<Rightarrow> (ISerializedNotebook1 \<Rightarrow> INotebookStorageId \<Rightarrow> error option) \<Rightarrow> world
     \<Rightarrow> world outcome" where
  "saveAs newNotebookId writeNotebook w =
     andThen (private_save newNotebookId writeNotebook
                (logInfo (''Saving notebook as: '' @ displayName newNotebookId) w)) (\<lambda>w2.
       Returned (logInfo (''Saved notebook: '' @ displayName newNotebookId)
         (w2\<lparr>nb := (nb w2)\<lparr>unsaved := False, storageId := newNotebookId, readOnly := False\<rparr>\<rparr>)))"

section \<open>The notebook view-model: evaluation lifecycle\<close>

text \<open>
  Modelled from the spec: the notifications of a cell are not part of the sources at
  hand. The start of a notebook evaluation is a signal to the cell, an entry of the
  trace; the completion clears the executing flag of the cell.
\<close>

definition cell_notifyNotebookEvalStarted :: "cellref \<Rightarrow> world \<Rightarrow> world" where
  "cell_notifyNotebookEvalStarted r w = w\<lparr>trace := trace w @ [CellNotebookEvalStarted r]\<rparr>"

definition cell_notifyCodeEvalComplete :: "cellref \<Rightarrow> world \<Rightarrow> world" where
  "cell_notifyCodeEvalComplete r w = w\<lparr>heap := (heap w)(r := (heap w r)\<lparr>c_executing := False\<rparr>)\<rparr>"

text \<open>The loops of \<^verbatim>\<open>notifyCodeEvalStarted\<close> and \<^verbatim>\<open>notifyCodeEvalComplete\<close> over the cells.\<close>

fun notifyCellsStarted :: "slot list \<Rightarrow> world \<Rightarrow> world outcome" where
  "notifyCellsStarted [] w = Returned w"
| "notifyCellsStarted (None # cs) w = Thrown TypeError w"
| "notifyCellsStarted (Some r # cs) w = notifyCellsStarted cs (cell_notifyNotebookEvalStarted r w)"

fun notifyCellsComplete :: "slot list \<Rightarrow> world \<Rightarrow> world outcome" where
  "notifyCellsComplete [] w = Returned w"
| "notifyCellsComplete (None # cs) w = Thrown TypeError w"
| "notifyCellsComplete (Some r # cs) w = notifyCellsComplete cs (cell_notifyCodeEvalComplete r w)"

definition notifyCodeEvalStarted :: "world \<Rightarrow> world outcome" where
  "notifyCodeEvalStarted w =
     andThen (notifyCellsStarted (cells (nb w)) (w\<lparr>nb := (nb w)\<lparr>executing := True\<rparr>\<rparr>)) (\<lambda>w1.
       Returned (w1\<lparr>trace := trace w1 @ [Raise EvalStarted]\<rparr>))"

definition notifyCodeEvalComplete :: "world \<Rightarrow> world outcome" where
  "notifyCodeEvalComplete w =
     andThen (notifyCellsComplete (cells (nb w)) (w\<lparr>nb := (nb w)\<lparr>executing := False\<rparr>\<rparr>)) (\<lambda>w1.
       Returned (w1\<lparr>trace := trace w1 @ [Raise EvalCompleted]\<rparr>))"

section \<open>The notebook editor\<close>

text \<open>
  The editor holds at most one notebook and the counter of running global tasks. Its
  collaborators (log, notification, evaluator) receive calls, which go to the trace.
\<close>

record editor = env +
  notebook :: "INotebookViewModel option"
  working :: int
  showHotkeysOverlay :: bool
  cellClipboard :: "ISerializedCell1 option"

definition isWorking :: "editor \<Rightarrow> bool" where
  "isWorking ed = (working ed > 0)"

definition emit :: "effect \<Rightarrow> editor \<Rightarrow> editor" where
  "emit x ed = ed\<lparr>trace := trace ed @ [x]\<rparr>"

text \<open>
  A call of a method of the open notebook, \<^verbatim>\<open>this.notebook!.m()\<close>: the method runs on
  the notebook with the editor's store and trace; without a notebook the call is a
  property access on \<^verbatim>\<open>undefined\<close>.
\<close>

definition open_world :: "editor \<Rightarrow> INotebookViewModel \<Rightarrow> world" where
  "open_world ed n = \<lparr>heap = heap ed, trace = trace ed, fresh = fresh ed, nb = n\<rparr>"

definition close_world :: "editor \<Rightarrow> world \<Rightarrow> editor" where
  "close_world ed w = ed\<lparr>heap := heap w, trace := trace w, fresh := fresh w, notebook := Some (nb w)\<rparr>"

definition onNotebook :: "(world \<Rightarrow> world outcome) \<Rightarrow> editor \<Rightarrow> editor outcome" where
  "onNotebook m ed =
     (case notebook ed of
        None \<Rightarrow> Thrown TypeError ed
      | Some n \<Rightarrow>
          (case m (open_world ed n) of
             Returned w \<Rightarrow> Returned (close_world ed w)
           | Thrown e w \<Rightarrow> Thrown e (close_world ed w)))"

definition checkCanEvaluateNotebook :: "editor \<Rightarrow> bool \<times> editor" where
  "checkCanEvaluateNotebook ed =
     (if isWorking ed then (False, emit (Warn ''Already working!'') ed)
      else case notebook ed of
             None \<Rightarrow> (False, emit (Warn ''You must create or open a notebook before evaluating it.'') ed)
           | Some n \<Rightarrow>
               if readOnly n
               then (False, emit (NotifyError ''The file for this notebook is readonly, please save it to a different location and copy any data files that it uses. Then you can run it.'') ed)
               else (True, ed))"

definition onEvaluationStarted :: "editor \<Rightarrow> editor outcome" where
  "onEvaluationStarted ed = onNotebook notifyCodeEvalStarted ed"

definition onEvaluationFinished :: "editor \<Rightarrow> editor outcome" where
  "onEvaluationFinished ed = onNotebook notifyCodeEvalComplete ed"

text \<open>
  The three evaluate commands. Each checks that it can run, stops an evaluation that is in
  progress (and reports it finished) instead of starting one, and otherwise flushes,
  serializes for evaluation, sends the command and reports the evaluation started.
\<close>

definition evaluateNotebook :: "editor \<Rightarrow> editor outcome" where
  "evaluateNotebook ed =
     (case checkCanEvaluateNotebook ed of
        (False, ed1) \<Rightarrow> Returned ed1
      | (True, ed1) \<Rightarrow>
          (case notebook ed1 of
             None \<Rightarrow> Returned (emit (Warn ''No notebook open!'') ed1)
           | Some n \<Rightarrow>
               if executing n
               then onEvaluationFinished (emit (StopEvaluation (instanceId n)) ed1)
               else andThen (onNotebook flushChanges ed1) (\<lambda>ed2.
                 case notebook ed2 of
                   None \<Rightarrow> Thrown TypeError ed2
                 | Some n2 \<Rightarrow>
                     (case serializeForEval (open_world ed2 n2) of
                        Inl e \<Rightarrow> Thrown e ed2
                      | Inr doc \<Rightarrow>
                          onEvaluationStarted
                            (emit (EvalNotebook (instanceId n2) doc
                                     (getContainingPath (storageId n2))) ed2)))))"

definition evaluateToCell :: "cellref \<Rightarrow> editor \<Rightarrow> editor outcome" where
  "evaluateToCell cell ed =
     (case checkCanEvaluateNotebook ed of
        (False, ed1) \<Rightarrow> Returned ed1
      | (True, ed1) \<Rightarrow>
          (case notebook ed1 of
             None \<Rightarrow> Returned (emit (Warn ''No notebook open!'') ed1)
           | Some n \<Rightarrow>
               if executing n
               then onEvaluationFinished (emit (StopEvaluation (instanceId n)) ed1)
               else andThen (onNotebook flushChanges ed1) (\<lambda>ed2.
                 case notebook ed2 of
                   None \<Rightarrow> Thrown TypeError ed2
                 | Some n2 \<Rightarrow>
                     (case serializeForEval (open_world ed2 n2) of
                        Inl e \<Rightarrow> Thrown e ed2
                      | Inr doc \<Rightarrow>
                          onEvaluationStarted
                            (emit (EvalToCell (instanceId n2) doc (c_id (heap ed2 cell))
                                     (getContainingPath (storageId n2))) ed2)))))"

definition evaluateSingleCell :: "cellref \<Rightarrow> editor \<Rightarrow> editor outcome" where
  "evaluateSingleCell cell ed =
     (case checkCanEvaluateNotebook ed of
        (False, ed1) \<Rightarrow> Returned ed1
      | (True, ed1) \<Rightarrow>
          (case notebook ed1 of
             None \<Rightarrow> Returned (emit (Warn ''No notebook open!'') ed1)
           | Some n \<Rightarrow>
               if executing n
               then onEvaluationFinished (emit (StopEvaluation (instanceId n)) ed1)
               else andThen (onNotebook flushChanges ed1) (\<lambda>ed2.
                 if c_cellType (heap ed2 cell) \<noteq> Code
                 then Returned (emit (Warn ''Requested cell is not a code cell.'') ed2)
                 else case notebook ed2 of
                   None \<Rightarrow> Thrown TypeError ed2
                 | Some n2 \<Rightarrow>
                     (case serializeForEval (open_world ed2 n2) of
                        Inl e \<Rightarrow> Thrown e ed2
                      | Inr doc \<Rightarrow>
                          onEvaluationStarted
                            (emit (EvalSingleCell (instanceId n2) doc (c_id (heap ed2 cell))
                                     (getContainingPath (storageId n2))) ed2)))))"

text \<open>
  Modelled from the spec: \<^verbatim>\<open>addError\<close>, \<^verbatim>\<open>addOutput\<close> and the evaluation
  notifications of a cell are not part of the sources at hand. An error or an output
  is appended to the sequence the cell keeps.
\<close>

definition cell_addError :: "string \<Rightarrow> cell \<Rightarrow> cell" where
  "cell_addError err c = c\<lparr>c_errors := c_errors c @ [err]\<rparr>"

definition cell_addOutput :: "string \<Rightarrow> cell \<Rightarrow> cell" where
  "cell_addOutput out c = c\<lparr>c_output := c_output c @ [out]\<rparr>"

definition addErrorTo :: "cellref \<Rightarrow> string \<Rightarrow> editor \<Rightarrow> editor" where
  "addErrorTo r err ed = ed\<lparr>heap := (heap ed)(r := cell_addError err (heap ed r))\<rparr>"

text \<open>The loop of \<^verbatim>\<open>reportError\<close> over the cells: the first code cell, if there is one.\<close>

fun firstCodeCell :: "slot list \<Rightarrow> (cellref \<Rightarrow> cell) \<Rightarrow> error + slot" where
  "firstCodeCell [] h = Inr None"
| "firstCodeCell (None # cs) h = Inl TypeError"
| "firstCodeCell (Some r # cs) h =
     (if c_cellType (h r) = Code then Inr (Some r) else firstCodeCell cs h)"

text \<open>An absent cell id, put into a message.\<close>

definition showCellId :: "string option \<Rightarrow> string" where
  "showCellId cellId = (case cellId of None \<Rightarrow> ''undefined'' | Some i \<Rightarrow> i)"

text \<open>
  \<^verbatim>\<open>cellId && this.notebook!.findCell(cellId)\<close>: an absent and an empty cell id are
  falsy, and the notebook is not consulted for them.
\<close>

definition findNamedCell :: "string option \<Rightarrow> editor \<Rightarrow> error + slot" where
  "findNamedCell cellId ed =
     (case cellId of
        None \<Rightarrow> Inr None
      | Some i \<Rightarrow>
          if i = [] then Inr None
          else (case notebook ed of
                  None \<Rightarrow> Inl TypeError
                | Some n \<Rightarrow> findCell i (open_world ed n)))"

definition reportError :: "string option \<Rightarrow> string \<Rightarrow> editor \<Rightarrow> editor outcome" where
  "reportError cellId err ed =
     (case findNamedCell cellId ed of
        Inl e \<Rightarrow> Thrown e ed
      | Inr (Some cell) \<Rightarrow> Returned (addErrorTo cell err ed)
      | Inr None \<Rightarrow>
          (case notebook ed of
             None \<Rightarrow> Thrown TypeError ed
           | Some n \<Rightarrow>
               (case firstCodeCell (cells n) (heap ed) of
                  Inl e \<Rightarrow> Thrown e ed
                | Inr (Some cell) \<Rightarrow> Returned (addErrorTo cell err ed)
                | Inr None \<Rightarrow>
                    Returned (emit (LogError (''receive-error: Failed to find cell ''
                                @ showCellId cellId @ '', error = '' @ err)) ed))))"

text \<open>The events of the evaluation engine, by tag, and the handler of each.\<close>

datatype evaluator_event =
    NotebookInstallStarted
  | NotebookInstallCompleted
  | NotebookEvalStarted
  | CellEvalStarted string
  | CellEvalCompleted string
  | NotebookEvalCompleted
  | OutputCapped
  | ReceiveDisplay "(string \<times> string) list"
  | ReceiveError "string option" string
  | OtherEvent string

definition cellEvalNotify :: "string \<Rightarrow> bool \<Rightarrow> string \<Rightarrow> editor \<Rightarrow> editor outcome" where
  "cellEvalNotify tag isStart cellId ed =
     (case notebook ed of
        None \<Rightarrow> Thrown TypeError ed
      | Some n \<Rightarrow>
          (case findCell cellId (open_world ed n) of
             Inl e \<Rightarrow> Thrown e ed
           | Inr (Some r) \<Rightarrow> Returned (ed\<lparr>heap := (heap ed)(r := (heap ed r)\<lparr>c_executing := isStart\<rparr>)\<rparr>)
           | Inr None \<Rightarrow> Returned (emit (LogError (tag @ '': Failed to find cell '' @ cellId)) ed)))"

fun receiveDisplay :: "(string \<times> string) list \<Rightarrow> editor \<Rightarrow> editor outcome" where
  "receiveDisplay [] ed = Returned ed"
| "receiveDisplay ((cellId, output) # outputs) ed =
     (case notebook ed of
        None \<Rightarrow> Thrown TypeError ed
      | Some n \<Rightarrow>
          (case findCell cellId (open_world ed n) of
             Inl e \<Rightarrow> Thrown e ed
           | Inr (Some r) \<Rightarrow>
               receiveDisplay outputs (ed\<lparr>heap := (heap ed)(r := cell_addOutput output (heap ed r))\<rparr>)
           | Inr None \<Rightarrow>
               receiveDisplay outputs
                 (emit (LogError (''receive-display: Failed to find cell '' @ cellId)) ed)))"

fun onEvaluatorEvent :: "evaluator_event \<Rightarrow> editor \<Rightarrow> editor outcome" where
  "onEvaluatorEvent NotebookInstallStarted ed = Returned ed"
| "onEvaluatorEvent NotebookInstallCompleted ed = Returned ed"
| "onEvaluatorEvent NotebookEvalStarted ed = Returned ed"
| "onEvaluatorEvent (CellEvalStarted cellId) ed = cellEvalNotify ''cell-eval-started'' True cellId ed"
| "onEvaluatorEvent (CellEvalCompleted cellId) ed = cellEvalNotify ''cell-eval-completed'' False cellId ed"
| "onEvaluatorEvent NotebookEvalCompleted ed = onEvaluationFinished ed"
| "onEvaluatorEvent OutputCapped ed =
     Returned (emit (Warn ''Output and errors from code have been capped to 1000 items, perhaps you have an infinite loop in your code?'') ed)"
| "onEvaluatorEvent (ReceiveDisplay outputs) ed = receiveDisplay outputs ed"
| "onEvaluatorEvent (ReceiveError cellId err) ed = reportError cellId err ed"
| "onEvaluatorEvent (OtherEvent event) ed =
     Returned (emit (LogError (''Not handling evaluation event '' @ event @ ''.'')) ed)"

text \<open>What a cell carries through serialization: id, type, text, outputs and errors.\<close>

definition cellContent :: "cell \<Rightarrow> string \<times> CellType \<times> string \<times> string list \<times> string list" where
  "cellContent c = (c_id c, c_cellType c, c_text c, c_output c, c_errors c)"

text \<open>
  The language and the cells of a document, wherever its shape keeps them: inside
  \<open>sheet\<close> when there is one (version 2), at the top otherwise (version 3).
\<close>

definition documentLanguage :: "ISerializedNotebook1 \<Rightarrow> string option" where
  "documentLanguage input =
     (case sn_sheet input of Some sheet \<Rightarrow> sh_language sheet | None \<Rightarrow> sn_language input)"

definition documentCells :: "ISerializedNotebook1 \<Rightarrow> ISerializedCell1 option list option" where
  "documentCells input =
     (case sn_sheet input of Some sheet \<Rightarrow> sh_cells sheet | None \<Rightarrow> sn_cells input)"

section \<open>Example objects\<close>

text \<open>
  A store with four cell objects, none hooked or selected: 0 is a markdown cell, 1, 2 and
  3 are code cells; and a saved, writable notebook over a given cell array.
\<close>

definition mkCell :: "string \<Rightarrow> CellType \<Rightarrow> cell" where
  "mkCell i t =
     \<lparr>c_id = i, c_cellType = t, c_text = [], c_output = [], c_errors = [],
      c_selected = False, c_executing = False,
      c_onEditorSelectionChanging = [], c_onEditorSelectionChanged = [],
      c_onModified = [], c_onTextChanged = []\<rparr>"

definition exampleHeap :: "cellref \<Rightarrow> cell" where
  "exampleHeap r =
     (if r = 0 then mkCell ''A1'' Markdown
      else if r = 1 then mkCell ''A2'' Code
      else if r = 2 then mkCell ''A3'' Code
      else mkCell ''A4'' Code)"

definition exampleStorageId :: INotebookStorageId where
  "exampleStorageId = \<lparr>displayName = ''notes.notebook'', getContainingPath = ''/home''\<rparr>"

definition exampleNotebook :: "slot list \<Rightarrow> INotebookViewModel" where
  "exampleNotebook cs =
     \<lparr>storageId = exampleStorageId, instanceId = ''n1'', nodejsVersion = None,
      language = ''javascript'', description = None, cells = cs, executing = False,
      selectedCell = None, modified = False, defaultNodejsVersion = ''v20'',
      unsaved = False, readOnly = False\<rparr>"

definition exampleEnv :: env where
  "exampleEnv = \<lparr>heap = exampleHeap, trace = [], fresh = 4\<rparr>"

definition exampleWorld :: "slot list \<Rightarrow> world" where
  "exampleWorld cs = \<lparr>heap = exampleHeap, trace = [], fresh = 4, nb = exampleNotebook cs\<rparr>"

text \<open>A notebook with an empty language, as the constructor accepts it.\<close>

definition emptyLanguageWorld :: world where
  "emptyLanguageWorld =
     \<lparr>heap = exampleHeap, trace = [], fresh = 4, nb = (exampleNotebook [])\<lparr>language := []\<rparr>\<rparr>"

text \<open>A version-3 document with a cell of an unexpected type, and a version-2 document
  whose sheet has neither language nor cells.\<close>

definition badCellDocument :: ISerializedNotebook1 where
  "badCellDocument =
     \<lparr>sn_version = 3, sn_nodejs = None, sn_language = Some ''javascript'', sn_description = None,
      sn_cells = Some [Some \<lparr>sc_id = ''c1'', sc_cellType = None, sc_code = [], sc_output = [],
                            sc_errors = []\<rparr>],
      sn_sheet = None\<rparr>"

definition sheetDocument :: ISerializedNotebook1 where
  "sheetDocument =
     \<lparr>sn_version = 2, sn_nodejs = Some ''v10.0.0'', sn_language = None, sn_description = None,
      sn_cells = None,
      sn_sheet = Some \<lparr>sh_id = ''1234'', sh_language = None, sh_cells = None\<rparr>\<rparr>"

text \<open>A notebook that was never saved, and one that is both never saved and read-only.\<close>

definition untitledStorageId :: INotebookStorageId where
  "untitledStorageId = \<lparr>displayName = ''untitled'', getContainingPath = []\<rparr>"

definition untitledWorld :: world where
  "untitledWorld =
     \<lparr>heap = exampleHeap, trace = [], fresh = 4,
      nb = (exampleNotebook [Some 1])\<lparr>storageId := untitledStorageId, unsaved := True\<rparr>\<rparr>"

definition unsavedReadOnlyWorld :: world where
  "unsavedReadOnlyWorld =
     \<lparr>heap = exampleHeap, trace = [], fresh = 4,
      nb = (exampleNotebook [Some 1])\<lparr>unsaved := True, readOnly := True\<rparr>\<rparr>"

text \<open>
  Editors over the example store: one holding a given notebook with a given count of
  running tasks, one whose notebook has a single markdown cell, one whose notebook has a
  markdown cell followed by two code cells; and a notebook that is executing.
\<close>

definition executingNotebook :: INotebookViewModel where
  "executingNotebook = (exampleNotebook [Some 0, Some 1])\<lparr>executing := True\<rparr>"

definition exampleEditor :: "INotebookViewModel \<Rightarrow> int \<Rightarrow> editor" where
  "exampleEditor n k =
     \<lparr>heap = exampleHeap, trace = [], fresh = 4, notebook = Some n, working = k,
      showHotkeysOverlay = False, cellClipboard = None\<rparr>"

definition markdownOnlyEditor :: editor where
  "markdownOnlyEditor =
     \<lparr>heap = exampleHeap, trace = [], fresh = 4, notebook = Some (exampleNotebook [Some 0]),
      working = 0, showHotkeysOverlay = False, cellClipboard = None\<rparr>"

definition threeCellEditor :: editor where
  "threeCellEditor =
     \<lparr>heap = exampleHeap, trace = [], fresh = 4,
      notebook = Some (exampleNotebook [Some 0, Some 1, Some 2]),
      working = 0, showHotkeysOverlay = False, cellClipboard = None\<rparr>"

section \<open>Properties of the cell array\<close>

lemma array_splice_remove_one:
  "n < length xs \<Longrightarrow> array_splice (int n) 1 [] xs = ([xs ! n], take n xs @ drop (Suc n) xs)"
  by (simp add: array_splice_def array_splice_start_def Let_def min_def take_Suc_conv_app_nth
      Cons_nth_drop_Suc[symmetric])

lemma array_splice_insert_one:
  "n \<le> length xs \<Longrightarrow> array_splice (int n) 0 [x] xs = ([], take n xs @ [x] @ drop n xs)"
  by (simp add: array_splice_def array_splice_start_def Let_def min_def)

lemma reorderedCells_in_range:
  assumes "s < length cs" "d < length cs"
  shows "reorderedCells (int s) (int d) cs =
      take d (take s cs @ drop (Suc s) cs) @ [cs ! s] @ drop d (take s cs @ drop (Suc s) cs)"
proof -
  have "d \<le> length (take s cs @ drop (Suc s) cs)" using assms by simp
  then show ?thesis
    using assms
    by (simp add: reorderedCells_def array_splice_remove_one array_splice_insert_one
        del: append_assoc)
qed


text \<open>
  For source and destination inside the array, moving a cell and moving it back restores
  the array: the moved cell stands at the destination index after the first move.
\<close>

lemma reorderedCells_roundtrip_in_range:
  assumes s: "s < length cs" and d: "d < length cs"
  shows "reorderedCells (int d) (int s) (reorderedCells (int s) (int d) cs) = cs"
proof -
  define rest where "rest = take s cs @ drop (Suc s) cs"
  define ys where "ys = take d rest @ [cs ! s] @ drop d rest"
  have lrest: "length rest = length cs - 1" using s by (simp add: rest_def)
  have dr: "d \<le> length rest" using d lrest by simp
  have lys: "length ys = length cs" using dr lrest s by (simp add: ys_def)
  have first: "reorderedCells (int s) (int d) cs = ys"
    using reorderedCells_in_range[OF s d] by (simp add: ys_def rest_def)
  have nth: "ys ! d = cs ! s" using dr by (simp add: ys_def nth_append)
  have tk: "take d ys = take d rest" using dr by (simp add: ys_def)
  have dp: "drop (Suc d) ys = drop d rest" using dr by (simp add: ys_def)
  have "reorderedCells (int d) (int s) ys =
          take s (take d ys @ drop (Suc d) ys) @ [ys ! d] @ drop s (take d ys @ drop (Suc d) ys)"
    using reorderedCells_in_range[of d ys s] d s lys by simp
  also have "\<dots> = take s rest @ [cs ! s] @ drop s rest"
    by (simp add: nth tk dp)
  also have "\<dots> = cs"
    using s by (simp add: rest_def id_take_nth_drop[symmetric])
  finally show ?thesis using first by simp
qed

lemma cells_notifyModified [simp]: "cells (nb (notifyModified w)) = cells (nb w)"
  by (simp add: notifyModified_def setModified_def)





section \<open>Properties of adding and deleting cells\<close>

lemma flushCells_defined:
  "None \<notin> set cs \<Longrightarrow>
     flushCells cs w = Returned (w\<lparr>trace := trace w @ map CellFlushChanges (map the cs)\<rparr>)"
proof (induction cs arbitrary: w)
  case Nil
  then show ?case by simp
next
  case (Cons c cs)
  then obtain r where "c = Some r" by (cases c) auto
  with Cons show ?case by (simp add: cell_flushChanges_def)
qed

lemma flushChanges_defined:
  "None \<notin> set (cells (nb w)) \<Longrightarrow>
     flushChanges w = Returned (w\<lparr>trace := trace w @ Raise FlushChanges #
                                    map CellFlushChanges (map the (cells (nb w)))\<rparr>)"
  by (simp add: flushChanges_def flushCells_defined)

lemma nb_hookCellEvents [simp]: "nb (hookCellEvents r w) = nb w"
  by (simp add: hookCellEvents_def)

lemma trace_hookCellEvents [simp]: "trace (hookCellEvents r w) = trace w"
  by (simp add: hookCellEvents_def)

text \<open>
  Claim C2. For a cell sequence of length len (no slot of it undefined) and an index i
  with 0 \<le> i \<le> len, \<open>addCell\<close> returns, and the sequence then has length len + 1, holds
  the new cell at position i, and holds the old cells in their order around it.
\<close>

theorem addCell_inserts_at_index:
  assumes "None \<notin> set (cells (nb w))" and "0 \<le> i" and "i \<le> int (length (cells (nb w)))"
  shows "\<exists>w'. addCell c i w = Returned w' \<and>
           cells (nb w') = take (nat i) (cells (nb w)) @ [Some c] @ drop (nat i) (cells (nb w)) \<and>
           length (cells (nb w')) = length (cells (nb w)) + 1 \<and>
           cells (nb w') ! nat i = Some c"
proof -
  have n: "nat i \<le> length (cells (nb w))" using assms by linarith
  have i: "i = int (nat i)" using assms by simp
  have sp: "array_splice i 0 [Some c] (cells (nb w)) =
        ([], take (nat i) (cells (nb w)) @ [Some c] @ drop (nat i) (cells (nb w)))"
    using array_splice_insert_one[OF n, of "Some c"] i by simp
  have fl: "flushChanges (hookCellEvents c w) = Returned ((hookCellEvents c w)
       \<lparr>trace := trace w @ Raise FlushChanges # map CellFlushChanges (map the (cells (nb w)))\<rparr>)"
    using flushChanges_defined[of "hookCellEvents c w"] assms(1) by simp
  show ?thesis
    using assms n by (simp add: addCell_def fl andThen_def sp nth_append)
qed

theorem addCell_inserts_at_index_witness:
  "None \<notin> set (cells (nb (exampleWorld [Some 0, Some 1]))) \<and>
   (\<exists>w'. addCell 3 1 (exampleWorld [Some 0, Some 1]) = Returned w' \<and>
          cells (nb w') = [Some 0, Some 3, Some 1] \<and> length (cells (nb w')) = 3)"
proof -
  have c: "cells (nb (exampleWorld [Some 0, Some 1])) = [Some 0, Some 1]"
    by (simp add: exampleWorld_def exampleNotebook_def)
  show ?thesis
    using addCell_inserts_at_index[of "exampleWorld [Some 0, Some 1]" 1 3] c
    by (auto simp: numeral_3_eq_3)
qed

lemma addCell_beyond_end:
  assumes "None \<notin> set (cells (nb w))" and "i > int (length (cells (nb w)))"
  shows "\<exists>w'. addCell c i w = Thrown (OutOfRange i (length (cells (nb w)))) w' \<and> nb w' = nb w"
  using assms flushChanges_defined[of "hookCellEvents c w"]
  by (simp add: addCell_def andThen_def)

text \<open>
  Claim C3. An index outside 0 \<le> i \<le> len is to be rejected with nothing altered. The
  code hooks the cell and flushes before it looks at the index, and it looks only for
  i > len. On the empty notebook, \<open>addCell\<close> at index 1 throws and leaves the cell
  sequence empty, but the rejected cell (object 3, with nothing attached before) then
  carries the four handlers of the notebook, and the pre-save event was raised. At index
  -1 on a two-cell notebook \<open>addCell\<close> does not throw: it inserts before the last cell.
\<close>

theorem addCell_rejected_cell_stays_hooked:
  "(\<exists>w'. addCell 3 1 (exampleWorld []) = Thrown (OutOfRange 1 0) w' \<and>
          cells (nb w') = [] \<and>
          c_onModified (heap (exampleWorld []) 3) = [] \<and>
          c_onModified (heap w' 3) = [OnCellModified] \<and>
          c_onTextChanged (heap w' 3) = [OnTextChanged] \<and>
          c_onEditorSelectionChanging (heap w' 3) = [OnEditorSelectionChanging] \<and>
          c_onEditorSelectionChanged (heap w' 3) = [OnEditorSelectionChanged] \<and>
          trace w' = [Raise FlushChanges]) \<and>
   (\<exists>w'. addCell 3 (-1) (exampleWorld [Some 0, Some 1]) = Returned w' \<and>
          cells (nb w') = [Some 0, Some 3, Some 1])"
  by (simp add: addCell_def andThen_def flushChanges_def hookCellEvents_def exampleWorld_def
      exampleNotebook_def exampleHeap_def mkCell_def attach_def notifyModified_def setModified_def
      array_splice_def array_splice_start_def cell_flushChanges_def)


lemma first_slot_map_Some: "first_slot (map Some rs) = (case rs of [] \<Rightarrow> None | r # _ \<Rightarrow> Some r)"
  by (cases rs) auto

lemma c_id_unhookCellEvents [simp]: "c_id (heap (unhookCellEvents r w) x) = c_id (heap w x)"
  by (simp add: unhookCellEvents_def)

lemma nb_unhookCellEvents [simp]: "nb (unhookCellEvents r w) = nb w"
  by (simp add: unhookCellEvents_def)

lemma cells_deselect [simp]: "cells (nb (deselect w)) = cells (nb w)"
  by (simp add: deselect_def cell_deselect_def Let_def split: option.splits)

lemma cells_cell_select [simp]: "cells (nb (cell_select r w)) = cells (nb w)"
  by (simp add: cell_select_def onEditorSelectionChanging_def onEditorSelectionChanged_def Let_def)




section \<open>Properties of serialization\<close>

lemma serializeCells_defined:
  "serializeCells f (map Some rs) h = Inr (map (\<lambda>r. Some (f (h r))) rs)"
  by (induction rs) auto

lemma cellViewModelFactory_wellformed:
  "sc_cellType sc = Some t \<Longrightarrow>
     cellViewModelFactory (Some sc) e =
       Inr (fresh e, e\<lparr>heap := (heap e)(fresh e := cell_deserialize t sc), fresh := Suc (fresh e)\<rparr>)"
  by (cases t) (simp_all add: CodeCellViewModel_deserialize_def MarkdownCellViewModel_deserialize_def newCell_def)

lemma deserializeCells_wellformed:
  assumes "\<forall>c\<in>set scs. \<exists>sc t. c = Some sc \<and> sc_cellType sc = Some t"
  shows "\<exists>rs e'. deserializeCells scs e = Inr (map Some rs, e') \<and>
           map (heap e') rs = map (\<lambda>c. cell_deserialize (the (sc_cellType (the c))) (the c)) scs \<and>
           trace e' = trace e \<and> fresh e \<le> fresh e' \<and> (\<forall>r<fresh e. heap e' r = heap e r)"
  using assms
proof (induction scs arbitrary: e)
  case Nil
  then show ?case by simp
next
  case (Cons c cs)
  then obtain sc t where c: "c = Some sc" "sc_cellType sc = Some t" by auto
  define e1 where "e1 = e\<lparr>heap := (heap e)(fresh e := cell_deserialize t sc), fresh := Suc (fresh e)\<rparr>"
  have f: "cellViewModelFactory c e = Inr (fresh e, e1)"
    using cellViewModelFactory_wellformed[OF c(2)] c(1) by (simp add: e1_def)
  have "\<forall>c\<in>set cs. \<exists>sc t. c = Some sc \<and> sc_cellType sc = Some t"
    using Cons.prems by simp
  from Cons.IH[OF this, of e1] obtain rs e2 where ih: "deserializeCells cs e1 = Inr (map Some rs, e2)"
      "map (heap e2) rs = map (\<lambda>c. cell_deserialize (the (sc_cellType (the c))) (the c)) cs"
      "trace e2 = trace e1" "fresh e1 \<le> fresh e2" "\<forall>r<fresh e1. heap e2 r = heap e1 r"
    by (elim exE conjE)
  have fr: "fresh e1 = Suc (fresh e)" and tr: "trace e1 = trace e"
    and h1: "heap e1 (fresh e) = cell_deserialize t sc" and h2: "\<forall>r<fresh e. heap e1 r = heap e r"
    by (simp_all add: e1_def)
  have "deserializeCells (c # cs) e = Inr (map Some (fresh e # rs), e2)"
    using f ih(1) by simp
  moreover have "map (heap e2) (fresh e # rs) =
      map (\<lambda>c. cell_deserialize (the (sc_cellType (the c))) (the c)) (c # cs)"
    using ih(2,5) fr h1 c by simp
  moreover have "trace e2 = trace e" using ih(3) tr by simp
  moreover have "fresh e \<le> fresh e2" using ih(4) fr by simp
  moreover have "\<forall>r<fresh e. heap e2 r = heap e r" using ih(5) fr h2 by simp
  ultimately show ?case by (intro exI[of _ "fresh e # rs"] exI[of _ e2] conjI)
qed

lemma cellContent_hookCellEvents [simp]:
  "cellContent (heap (hookCellEvents r w) x) = cellContent (heap w x)"
  by (simp add: hookCellEvents_def cellContent_def)

lemma hookCells_defined:
  "\<exists>w'. hookCells (map Some rs) w = Returned w' \<and> nb w' = nb w \<and> trace w' = trace w \<and>
        (\<forall>x. cellContent (heap w' x) = cellContent (heap w x))"
proof (induction rs arbitrary: w)
  case Nil
  then show ?case by simp
next
  case (Cons r rs)
  from Cons[of "hookCellEvents r w"] show ?case by simp
qed

lemma new_NotebookViewModel_defined:
  "\<exists>w'. new_NotebookViewModel sid nv lang (map Some rs) descr u ro d uuid e = Returned w' \<and>
     language (nb w') = lang \<and> nodejsVersion (nb w') = nv \<and> defaultNodejsVersion (nb w') = d \<and>
     cells (nb w') = map Some rs \<and> unsaved (nb w') = u \<and> readOnly (nb w') = ro \<and>
     storageId (nb w') = sid \<and>
     (\<forall>x. cellContent (heap w' x) = cellContent (heap e x))"
proof -
  define w0 :: world where "w0 = \<lparr>heap = heap e, trace = trace e, fresh = fresh e,
        nb = \<lparr>storageId = sid, instanceId = uuid, nodejsVersion = nv,
              language = lang, description = descr, cells = map Some rs,
              executing = False, selectedCell = None, modified = False,
              defaultNodejsVersion = d, unsaved = u, readOnly = ro\<rparr>\<rparr>"
  obtain w' where "hookCells (map Some rs) w0 = Returned w'" "nb w' = nb w0"
     "\<forall>x. cellContent (heap w' x) = cellContent (heap w0 x)"
    using hookCells_defined[of rs w0] by (elim exE conjE)
  then show ?thesis
    by (simp add: new_NotebookViewModel_def w0_def)
qed

lemma cellsOrEmpty_wellformed:
  assumes "\<forall>cs. dc = Some cs \<longrightarrow> (\<forall>c\<in>set cs. \<exists>sc t. c = Some sc \<and> sc_cellType sc = Some t)"
  shows "\<exists>rs e'. cellsOrEmpty dc e = Inr (map Some rs, e') \<and>
           map (heap e') rs = map (\<lambda>c. cell_deserialize (the (sc_cellType (the c))) (the c))
                                  (case dc of None \<Rightarrow> [] | Some cs \<Rightarrow> cs)"
proof (cases dc)
  case None
  then show ?thesis by (simp add: cellsOrEmpty_def)
next
  case (Some cs)
  with assms deserializeCells_wellformed[of cs e] show ?thesis
    by (auto simp: cellsOrEmpty_def)
qed

lemma deserialize_wellformed:
  assumes "\<forall>cs. documentCells input = Some cs \<longrightarrow>
             (\<forall>c\<in>set cs. \<exists>sc t. c = Some sc \<and> sc_cellType sc = Some t)"
  shows "\<exists>w rs. deserialize sid u ro d uuid input e = Inr w \<and>
           language (nb w) = orDefault (documentLanguage input) ''javascript'' \<and>
           nodejsVersion (nb w) = sn_nodejs input \<and> defaultNodejsVersion (nb w) = d \<and>
           unsaved (nb w) = u \<and> readOnly (nb w) = ro \<and> storageId (nb w) = sid \<and>
           cells (nb w) = map Some rs \<and>
           map (\<lambda>r. cellContent (heap w r)) rs =
             map (\<lambda>c. cellContent (cell_deserialize (the (sc_cellType (the c))) (the c)))
               (case documentCells input of None \<Rightarrow> [] | Some cs \<Rightarrow> cs)"
proof -
  obtain rs e1 where c: "cellsOrEmpty (documentCells input) e = Inr (map Some rs, e1)"
     "map (heap e1) rs = map (\<lambda>c. cell_deserialize (the (sc_cellType (the c))) (the c))
         (case documentCells input of None \<Rightarrow> [] | Some cs \<Rightarrow> cs)"
    using cellsOrEmpty_wellformed[OF assms, of e] by (elim exE conjE)
  obtain w where w: "new_NotebookViewModel sid (sn_nodejs input)
        (orDefault (documentLanguage input) ''javascript'') (map Some rs)
        (sn_description input) u ro d uuid e1 = Returned w"
     "language (nb w) = orDefault (documentLanguage input) ''javascript''"
     "nodejsVersion (nb w) = sn_nodejs input" "defaultNodejsVersion (nb w) = d"
     "cells (nb w) = map Some rs" "unsaved (nb w) = u" "readOnly (nb w) = ro" "storageId (nb w) = sid"
     "\<forall>x. cellContent (heap w x) = cellContent (heap e1 x)"
    using new_NotebookViewModel_defined[of sid "sn_nodejs input"
        "orDefault (documentLanguage input) ''javascript''" rs "sn_description input" u ro d uuid e1]
    by (elim exE conjE)
  have d: "deserialize sid u ro d uuid input e = Inr w"
    using c(1) w(1)
    by (cases "sn_sheet input") (simp_all add: deserialize_def documentCells_def documentLanguage_def)
  have "map (\<lambda>r. cellContent (heap w r)) rs = map cellContent (map (heap e1) rs)"
    using w(9) by simp
  also have "\<dots> = map (\<lambda>c. cellContent (cell_deserialize (the (sc_cellType (the c))) (the c)))
               (case documentCells input of None \<Rightarrow> [] | Some cs \<Rightarrow> cs)"
    using c(2) by simp
  finally have m: "map (\<lambda>r. cellContent (heap w r)) rs =
      map (\<lambda>c. cellContent (cell_deserialize (the (sc_cellType (the c))) (the c)))
               (case documentCells input of None \<Rightarrow> [] | Some cs \<Rightarrow> cs)" .
  show ?thesis
    by (intro exI[of _ w] exI[of _ rs] conjI d w(2-8) m)
qed

text \<open>
  Claim C5, as amended. For a notebook with a non-empty language and no undefined slot,
  \<open>serialize\<close> returns a document, \<open>deserialize\<close> of that document returns a
  notebook, and the notebook has the same language, the same Node.js version field (so
  the same version once the injected default stands in for an unset one), and a cell
  sequence with the same ids and contents in the same order.
\<close>

theorem serialize_deserialize_roundtrip:
  assumes "cells (nb w) = map Some rs" and "language (nb w) \<noteq> []"
  shows "\<exists>doc w2 rs2. serialize w = Inr doc \<and> deserialize sid u ro d uuid doc e = Inr w2 \<and>
           language (nb w2) = language (nb w) \<and>
           nodejsVersion (nb w2) = nodejsVersion (nb w) \<and>
           getNodejsVersion (nb w2) = orDefault (nodejsVersion (nb w)) d \<and>
           cells (nb w2) = map Some rs2 \<and>
           map (\<lambda>r. cellContent (heap w2 r)) rs2 = map (\<lambda>r. cellContent (heap w r)) rs"
proof -
  define doc where "doc = \<lparr>sn_version = notebookVersion, sn_nodejs = nodejsVersion (nb w),
               sn_language = Some (language (nb w)), sn_description = description (nb w),
               sn_cells = Some (map (\<lambda>r. Some (cell_serialize (heap w r))) rs), sn_sheet = None\<rparr>"
  have s: "serialize w = Inr doc"
    using assms(1) by (simp add: serialize_def serializeCells_defined doc_def)
  have dc: "documentCells doc = Some (map (\<lambda>r. Some (cell_serialize (heap w r))) rs)"
    and dl: "documentLanguage doc = Some (language (nb w))" and dn: "sn_nodejs doc = nodejsVersion (nb w)"
    by (simp_all add: documentCells_def documentLanguage_def doc_def)
  have wf: "\<forall>cs. documentCells doc = Some cs \<longrightarrow>
             (\<forall>c\<in>set cs. \<exists>sc t. c = Some sc \<and> sc_cellType sc = Some t)"
    by (auto simp: dc cell_serialize_def)
  from deserialize_wellformed[OF wf, of sid u ro d uuid e]
  obtain w2 rs2 where w2: "deserialize sid u ro d uuid doc e = Inr w2"
     "language (nb w2) = orDefault (documentLanguage doc) ''javascript''"
     "nodejsVersion (nb w2) = sn_nodejs doc" "defaultNodejsVersion (nb w2) = d"
     "cells (nb w2) = map Some rs2"
     "map (\<lambda>r. cellContent (heap w2 r)) rs2 =
             map (\<lambda>c. cellContent (cell_deserialize (the (sc_cellType (the c))) (the c)))
               (case documentCells doc of None \<Rightarrow> [] | Some cs \<Rightarrow> cs)"
    by (elim exE conjE)
  have l: "language (nb w2) = language (nb w)"
    using w2(2) assms(2) by (simp add: dl orDefault_def)
  have n: "nodejsVersion (nb w2) = nodejsVersion (nb w)" using w2(3) dn by simp
  have g: "getNodejsVersion (nb w2) = orDefault (nodejsVersion (nb w)) d"
    using n w2(4) by (simp add: getNodejsVersion_def)
  have m: "map (\<lambda>r. cellContent (heap w2 r)) rs2 = map (\<lambda>r. cellContent (heap w r)) rs"
    using w2(6) by (simp add: dc cell_serialize_def cell_deserialize_def cellContent_def)
  show ?thesis
    by (intro exI[of _ doc] exI[of _ w2] exI[of _ rs2] conjI s w2(1) l n g w2(5) m)
qed

theorem serialize_deserialize_roundtrip_witness:
  "language (nb (exampleWorld [Some 0, Some 1])) \<noteq> [] \<and>
   (\<exists>doc w2 rs2. serialize (exampleWorld [Some 0, Some 1]) = Inr doc \<and>
      deserialize exampleStorageId False False ''v20'' ''n2'' doc exampleEnv = Inr w2 \<and>
      language (nb w2) = ''javascript'' \<and> getNodejsVersion (nb w2) = ''v20'' \<and>
      cells (nb w2) = map Some rs2 \<and>
      map (\<lambda>r. c_id (heap w2 r)) rs2 = [''A1'', ''A2''] \<and>
      map (\<lambda>r. c_cellType (heap w2 r)) rs2 = [Markdown, Code])"
proof -
  have c: "cells (nb (exampleWorld [Some 0, Some 1])) = map Some [0, 1]"
    and l: "language (nb (exampleWorld [Some 0, Some 1])) \<noteq> []"
    and l2: "language (nb (exampleWorld [Some 0, Some 1])) = ''javascript''"
    and n: "nodejsVersion (nb (exampleWorld [Some 0, Some 1])) = None"
    by (simp_all add: exampleWorld_def exampleNotebook_def)
  from serialize_deserialize_roundtrip[OF c l, of exampleStorageId False False "''v20''" "''n2''" exampleEnv]
  obtain doc w2 rs2 where r: "serialize (exampleWorld [Some 0, Some 1]) = Inr doc"
     "deserialize exampleStorageId False False ''v20'' ''n2'' doc exampleEnv = Inr w2"
     "language (nb w2) = language (nb (exampleWorld [Some 0, Some 1]))"
     "getNodejsVersion (nb w2) = orDefault (nodejsVersion (nb (exampleWorld [Some 0, Some 1]))) ''v20''"
     "cells (nb w2) = map Some rs2"
     "map (\<lambda>r. cellContent (heap w2 r)) rs2 =
        map (\<lambda>r. cellContent (heap (exampleWorld [Some 0, Some 1]) r)) [0, 1]"
    by (elim exE conjE)
  have "map (\<lambda>r. fst (cellContent (heap w2 r))) rs2 = [''A1'', ''A2'']"
    using arg_cong[OF r(6), of "map fst"]
    by (simp add: o_def exampleWorld_def exampleHeap_def mkCell_def cellContent_def)
  then have i: "map (\<lambda>r. c_id (heap w2 r)) rs2 = [''A1'', ''A2'']"
    by (simp add: cellContent_def)
  have "map (\<lambda>r. fst (snd (cellContent (heap w2 r)))) rs2 = [Markdown, Code]"
    using arg_cong[OF r(6), of "map (\<lambda>x. fst (snd x))"]
    by (simp add: o_def exampleWorld_def exampleHeap_def mkCell_def cellContent_def)
  then have t: "map (\<lambda>r. c_cellType (heap w2 r)) rs2 = [Markdown, Code]"
    by (simp add: cellContent_def)
  have g: "getNodejsVersion (nb w2) = ''v20''" using r(4) n by (simp add: orDefault_def)
  have l3: "language (nb w2) = ''javascript''" using r(3) l2 by simp
  show ?thesis
    by (intro conjI l exI[of _ doc] exI[of _ w2] exI[of _ rs2] r(1,2) l3 g r(5) i t)
qed

text \<open>
  Claim C5 as stated fails for a notebook whose language is the empty string: the
  document carries the empty language, and \<open>deserialize\<close> replaces it by "javascript".
\<close>

theorem roundtrip_empty_language_counterexample:
  "\<exists>doc w2. serialize emptyLanguageWorld = Inr doc \<and>
      deserialize exampleStorageId False False ''v20'' ''n2'' doc exampleEnv = Inr w2 \<and>
      language (nb emptyLanguageWorld) = [] \<and> language (nb w2) = ''javascript'' \<and>
      language (nb w2) \<noteq> language (nb emptyLanguageWorld)"
  by (simp add: emptyLanguageWorld_def exampleNotebook_def serialize_def deserialize_def
      cellsOrEmpty_def new_NotebookViewModel_def orDefault_def)

text \<open>
  Claim C6, as amended. For a document of either shape whose cell entries, when it has
  cells, are all present and of type code or markdown, \<open>deserialize\<close> returns a notebook:
  its language is the document's, or "javascript" when that is absent or empty; its cell
  sequence is empty when the document has no cells field, and has one cell for each entry
  otherwise.
\<close>

theorem deserialize_defaults:
  assumes "\<forall>cs. documentCells input = Some cs \<longrightarrow>
             (\<forall>c\<in>set cs. \<exists>sc t. c = Some sc \<and> sc_cellType sc = Some t)"
  shows "\<exists>w. deserialize sid u ro d uuid input e = Inr w \<and>
           language (nb w) = orDefault (documentLanguage input) ''javascript'' \<and>
           (documentLanguage input = None \<or> documentLanguage input = Some [] \<longrightarrow>
              language (nb w) = ''javascript'') \<and>
           (documentCells input = None \<longrightarrow> cells (nb w) = []) \<and>
           length (cells (nb w)) = (case documentCells input of None \<Rightarrow> 0 | Some cs \<Rightarrow> length cs)"
proof -
  from deserialize_wellformed[OF assms, of sid u ro d uuid e]
  obtain w rs where w: "deserialize sid u ro d uuid input e = Inr w"
     "language (nb w) = orDefault (documentLanguage input) ''javascript''"
     "cells (nb w) = map Some rs"
     "map (\<lambda>r. cellContent (heap w r)) rs =
             map (\<lambda>c. cellContent (cell_deserialize (the (sc_cellType (the c))) (the c)))
               (case documentCells input of None \<Rightarrow> [] | Some cs \<Rightarrow> cs)"
    by (elim exE conjE)
  have len: "length rs = (case documentCells input of None \<Rightarrow> 0 | Some cs \<Rightarrow> length cs)"
    using arg_cong[OF w(4), of length] by (simp split: option.splits)
  have a: "documentLanguage input = None \<or> documentLanguage input = Some [] \<longrightarrow>
              language (nb w) = ''javascript''"
    using w(2) by (auto simp: orDefault_def)
  have b: "documentCells input = None \<longrightarrow> cells (nb w) = []"
    using len w(3) by auto
  have c: "length (cells (nb w)) = (case documentCells input of None \<Rightarrow> 0 | Some cs \<Rightarrow> length cs)"
    using len w(3) by simp
  show ?thesis
    by (intro exI[of _ w] conjI w(1,2) a b c)
qed

theorem deserialize_defaults_witness:
  "documentCells sheetDocument = None \<and> documentLanguage sheetDocument = None \<and>
   (\<exists>w. deserialize exampleStorageId False False ''v20'' ''n2'' sheetDocument exampleEnv = Inr w \<and>
        language (nb w) = ''javascript'' \<and> cells (nb w) = [])"
proof -
  have c: "documentCells sheetDocument = None" and l: "documentLanguage sheetDocument = None"
    by (simp_all add: documentCells_def documentLanguage_def sheetDocument_def)
  have "\<forall>cs. documentCells sheetDocument = Some cs \<longrightarrow>
             (\<forall>c\<in>set cs. \<exists>sc t. c = Some sc \<and> sc_cellType sc = Some t)"
    using c by simp
  from deserialize_defaults[OF this, of exampleStorageId False False "''v20''" "''n2''" exampleEnv]
  show ?thesis using c l by auto
qed

text \<open>
  Claim C6 as stated fails for a document with a cell of an unexpected type: the cell
  factory throws, and so does \<open>deserialize\<close>.
\<close>

theorem deserialize_unexpected_cell_type_counterexample:
  "deserialize exampleStorageId False False ''v20'' ''n2'' badCellDocument exampleEnv
     = Inl UnexpectedCellType"
  by (simp add: deserialize_def badCellDocument_def cellsOrEmpty_def)

section \<open>Properties of saving\<close>

lemma flushCells_nb:
  "(flushCells cs w = Returned w' \<or> flushCells cs w = Thrown e w') \<Longrightarrow> nb w' = nb w \<and> heap w' = heap w"
proof (induction cs arbitrary: w)
  case Nil
  then show ?case by auto
next
  case (Cons c cs)
  show ?case
  proof (cases c)
    case None
    with Cons.prems show ?thesis by auto
  next
    case (Some r)
    with Cons.prems Cons.IH[of "cell_flushChanges r w"] show ?thesis
      by (simp add: cell_flushChanges_def)
  qed
qed

lemma flushChanges_nb:
  "(flushChanges w = Returned w' \<or> flushChanges w = Thrown e w') \<Longrightarrow> nb w' = nb w \<and> heap w' = heap w"
  using flushCells_nb[of "cells (nb w)" "w\<lparr>trace := trace w @ [Raise FlushChanges]\<rparr>" w' e]
  by (simp add: flushChanges_def)

lemma private_save_Thrown:
  assumes "private_save nid wr w = Thrown e w'"
  shows "nb w' = nb w"
proof (cases "flushChanges w")
  case (Returned w1)
  then have n: "nb w1 = nb w" using flushChanges_nb[of w w1] by simp
  from assms Returned n show ?thesis
    by (auto simp: private_save_def andThen_def split: sum.splits option.splits)
next
  case (Thrown e1 w1)
  then have "nb w1 = nb w" using flushChanges_nb[of w w1 e1] by simp
  with assms Thrown show ?thesis by (simp add: private_save_def andThen_def)
qed

lemma serialize_trace [simp]: "serialize (w\<lparr>trace := t\<rparr>) = serialize w"
  by (simp add: serialize_def split: sum.splits)

lemma private_save_defined:
  assumes "cells (nb w) = map Some rs" and "serialize w = Inr doc"
  shows "private_save nid wr w =
           (case wr doc nid of
              Some e \<Rightarrow> Thrown e (w\<lparr>trace := trace w @ Raise FlushChanges # map CellFlushChanges rs\<rparr>)
            | None \<Rightarrow> Returned (clearModified
                (w\<lparr>trace := trace w @ Raise FlushChanges # map CellFlushChanges rs
                               @ [WriteNotebook doc nid]\<rparr>)))"
proof -
  have "None \<notin> set (cells (nb w))" using assms by auto
  then show ?thesis
    using assms
    by (simp add: private_save_def andThen_def flushChanges_defined o_def split: option.splits)
qed

lemma nb_logInfo [simp]: "nb (logInfo m w) = nb w"
  by (simp add: logInfo_def)

lemma serialize_logInfo [simp]: "serialize (logInfo m w) = serialize w"
  by (simp add: logInfo_def)

lemma saveAs_Returned:
  assumes "saveAs newId wr w = Returned w'"
  shows "unsaved (nb w') = False \<and> readOnly (nb w') = False \<and> storageId (nb w') = newId"
  using assms by (auto simp: saveAs_def andThen_def logInfo_def split: outcome.splits)

lemma saveAs_Thrown:
  assumes "saveAs newId wr w = Thrown e w'"
  shows "nb w' = nb w"
proof -
  from assms have "private_save newId wr (logInfo (''Saving notebook as: '' @ displayName newId) w)
      = Thrown e w'"
    by (auto simp: saveAs_def andThen_def split: outcome.splits)
  then have "nb w' = nb (logInfo (''Saving notebook as: '' @ displayName newId) w)"
    by (rule private_save_Thrown)
  then show ?thesis by simp
qed

lemma saveAs_defined:
  assumes "cells (nb w) = map Some rs" and "serialize w = Inr doc"
  shows "(wr doc newId = None \<longrightarrow> (\<exists>w'. saveAs newId wr w = Returned w')) \<and>
         (\<forall>e. wr doc newId = Some e \<longrightarrow> (\<exists>w'. saveAs newId wr w = Thrown e w'))"
proof -
  define w0 where "w0 = logInfo (''Saving notebook as: '' @ displayName newId) w"
  have c: "cells (nb w0) = map Some rs" using assms by (simp add: w0_def)
  have d: "serialize w0 = Inr doc" using assms by (simp add: w0_def)
  have "saveAs newId wr w =
      andThen (private_save newId wr w0) (\<lambda>w2.
       Returned (logInfo (''Saved notebook: '' @ displayName newId)
         (w2\<lparr>nb := (nb w2)\<lparr>unsaved := False, storageId := newId, readOnly := False\<rparr>\<rparr>)))"
    unfolding saveAs_def w0_def by (rule refl)
  then show ?thesis
    unfolding private_save_defined[OF c d] by (auto simp: andThen_def)
qed

text \<open>
  Claim C7, as amended. \<open>save\<close> throws \<open>ReadOnlyViolation\<close> on a read-only notebook,
  with nothing changed; on a notebook that is not read-only and was never saved it throws
  \<open>NeverSaved\<close>, the notebook and its cells unchanged. When \<open>saveAs\<close> returns, the
  notebook is neither unsaved nor read-only and its storage id is the new one; and it
  returns whenever the storage write of the serialized notebook is done (on a notebook
  with no undefined slot).
\<close>

theorem save_guards_and_saveAs_flags:
  "(readOnly (nb w) \<longrightarrow> save wr w = Thrown ReadOnlyViolation w) \<and>
   (unsaved (nb w) \<and> \<not> readOnly (nb w) \<longrightarrow>
      (\<exists>w'. save wr w = Thrown NeverSaved w' \<and> nb w' = nb w \<and> heap w' = heap w)) \<and>
   (\<forall>w'. saveAs newId wr w = Returned w' \<longrightarrow>
      unsaved (nb w') = False \<and> readOnly (nb w') = False \<and> storageId (nb w') = newId) \<and>
   (\<forall>rs doc. cells (nb w) = map Some rs \<and> serialize w = Inr doc \<and> wr doc newId = None \<longrightarrow>
      (\<exists>w'. saveAs newId wr w = Returned w'))"
proof -
  have a: "readOnly (nb w) \<longrightarrow> save wr w = Thrown ReadOnlyViolation w"
    by (simp add: save_def)
  have b: "unsaved (nb w) \<and> \<not> readOnly (nb w) \<longrightarrow>
      (\<exists>w'. save wr w = Thrown NeverSaved w' \<and> nb w' = nb w \<and> heap w' = heap w)"
    by (simp add: save_def Let_def logInfo_def)
  have c: "\<forall>w'. saveAs newId wr w = Returned w' \<longrightarrow>
      unsaved (nb w') = False \<and> readOnly (nb w') = False \<and> storageId (nb w') = newId"
    using saveAs_Returned by blast
  have d: "\<forall>rs doc. cells (nb w) = map Some rs \<and> serialize w = Inr doc \<and> wr doc newId = None \<longrightarrow>
      (\<exists>w'. saveAs newId wr w = Returned w')"
    using saveAs_defined by blast
  from a b c d show ?thesis by (intro conjI)
qed

theorem save_guards_and_saveAs_flags_witness:
  "unsaved (nb untitledWorld) \<and> \<not> readOnly (nb untitledWorld) \<and>
   (\<exists>w'. save (\<lambda>d i. None) untitledWorld = Thrown NeverSaved w') \<and>
   (\<exists>w'. saveAs exampleStorageId (\<lambda>d i. None) untitledWorld = Returned w' \<and>
      unsaved (nb w') = False \<and> readOnly (nb w') = False \<and> storageId (nb w') = exampleStorageId)"
proof -
  have f: "unsaved (nb untitledWorld)" "\<not> readOnly (nb untitledWorld)"
    "cells (nb untitledWorld) = map Some [1]"
    by (simp_all add: untitledWorld_def exampleNotebook_def)
  have s: "\<exists>doc. serialize untitledWorld = Inr doc"
    using f(3) by (simp add: serialize_def serializeCells_defined)
  note t = save_guards_and_saveAs_flags[of untitledWorld "\<lambda>d i. None" exampleStorageId]
  from t f have a: "\<exists>w'. save (\<lambda>d i. None) untitledWorld = Thrown NeverSaved w'" by blast
  from t f(3) s obtain w' where w': "saveAs exampleStorageId (\<lambda>d i. None) untitledWorld = Returned w'"
    by blast
  with t have "unsaved (nb w') = False \<and> readOnly (nb w') = False \<and> storageId (nb w') = exampleStorageId"
    by blast
  with w' a f show ?thesis by blast
qed

text \<open>
  Claim C7 as stated fails for a notebook that is both never saved and read-only:
  \<open>save\<close> checks the read-only flag first and throws \<open>ReadOnlyViolation\<close>, not
  \<open>NeverSaved\<close>.
\<close>

theorem save_unsaved_readOnly_counterexample:
  "unsaved (nb unsavedReadOnlyWorld) \<and> readOnly (nb unsavedReadOnlyWorld) \<and>
   save (\<lambda>d i. None) unsavedReadOnlyWorld = Thrown ReadOnlyViolation unsavedReadOnlyWorld \<and>
   save (\<lambda>d i. None) unsavedReadOnlyWorld \<noteq> Thrown NeverSaved unsavedReadOnlyWorld"
  by (simp add: save_def unsavedReadOnlyWorld_def exampleNotebook_def)

lemma private_save_Returned:
  assumes "private_save nid wr w = Returned w'"
  shows "\<exists>doc. wr doc nid = None \<and> WriteNotebook doc nid \<in> set (trace w')"
proof (cases "flushChanges w")
  case (Returned w1)
  with assms show ?thesis
    by (auto simp: private_save_def andThen_def clearModified_def setModified_def
        split: sum.splits option.splits if_splits)
next
  case (Thrown e1 w1)
  with assms show ?thesis by (simp add: private_save_def andThen_def)
qed

lemma saveAs_Returned_written:
  assumes "saveAs newId wr w = Returned w'"
  shows "\<exists>doc. wr doc newId = None \<and> WriteNotebook doc newId \<in> set (trace w')"
proof -
  from assms obtain w2 where p: "private_save newId wr
        (logInfo (''Saving notebook as: '' @ displayName newId) w) = Returned w2"
    and w': "w' = logInfo (''Saved notebook: '' @ displayName newId)
         (w2\<lparr>nb := (nb w2)\<lparr>unsaved := False, storageId := newId, readOnly := False\<rparr>\<rparr>)"
    by (auto simp: saveAs_def andThen_def split: outcome.splits)
  from private_save_Returned[OF p] obtain doc where "wr doc newId = None"
     "WriteNotebook doc newId \<in> set (trace w2)" by blast
  then show ?thesis using w' by (auto simp: logInfo_def)
qed

text \<open>
  Claim C10. When the storage collaborator rejects the write of the serialized notebook,
  \<open>saveAs\<close> throws that rejection. Whenever \<open>saveAs\<close> throws, the unsaved flag, the
  read-only flag and the storage id of the notebook are the ones before the call. And
  whenever \<open>saveAs\<close> returns, the collaborator has accepted a write to the new
  storage id, which the trace records.
\<close>

theorem saveAs_failed_write_keeps_state:
  "(\<forall>rs doc err. cells (nb w) = map Some rs \<and> serialize w = Inr doc \<and>
        writeNotebook doc newId = Some err \<longrightarrow>
        (\<exists>w'. saveAs newId writeNotebook w = Thrown err w')) \<and>
   (\<forall>e w'. saveAs newId writeNotebook w = Thrown e w' \<longrightarrow>
        unsaved (nb w') = unsaved (nb w) \<and> readOnly (nb w') = readOnly (nb w) \<and>
        storageId (nb w') = storageId (nb w)) \<and>
   (\<forall>w'. saveAs newId writeNotebook w = Returned w' \<longrightarrow>
        (\<exists>doc. writeNotebook doc newId = None \<and> WriteNotebook doc newId \<in> set (trace w')))"
proof -
  have a: "\<forall>rs doc err. cells (nb w) = map Some rs \<and> serialize w = Inr doc \<and>
        writeNotebook doc newId = Some err \<longrightarrow>
        (\<exists>w'. saveAs newId writeNotebook w = Thrown err w')"
    using saveAs_defined[of w _ _ writeNotebook newId] by blast
  have b: "\<forall>e w'. saveAs newId writeNotebook w = Thrown e w' \<longrightarrow>
        unsaved (nb w') = unsaved (nb w) \<and> readOnly (nb w') = readOnly (nb w) \<and>
        storageId (nb w') = storageId (nb w)"
    using saveAs_Thrown[of newId writeNotebook w] by simp
  have c: "\<forall>w'. saveAs newId writeNotebook w = Returned w' \<longrightarrow>
        (\<exists>doc. writeNotebook doc newId = None \<and> WriteNotebook doc newId \<in> set (trace w'))"
    using saveAs_Returned_written by blast
  from a b c show ?thesis by (intro conjI)
qed

theorem saveAs_failed_write_keeps_state_witness:
  "\<exists>w'. saveAs exampleStorageId (\<lambda>d i. Some (IOFailure ''disk full'')) untitledWorld
           = Thrown (IOFailure ''disk full'') w' \<and>
         unsaved (nb w') \<and> \<not> readOnly (nb w') \<and> storageId (nb w') = untitledStorageId"
proof -
  have c: "cells (nb untitledWorld) = map Some [1]"
    by (simp add: untitledWorld_def exampleNotebook_def)
  obtain doc where d: "serialize untitledWorld = Inr doc"
    using c by (simp add: serialize_def serializeCells_defined)
  have f: "unsaved (nb untitledWorld)" "\<not> readOnly (nb untitledWorld)"
     "storageId (nb untitledWorld) = untitledStorageId"
    by (simp_all add: untitledWorld_def exampleNotebook_def)
  note t = saveAs_failed_write_keeps_state[of untitledWorld
      "\<lambda>d i. Some (IOFailure ''disk full'')" exampleStorageId]
  from t c d obtain w' where w': "saveAs exampleStorageId (\<lambda>d i. Some (IOFailure ''disk full''))
      untitledWorld = Thrown (IOFailure ''disk full'') w'"
    by blast
  with t have "unsaved (nb w') = unsaved (nb untitledWorld) \<and>
      readOnly (nb w') = readOnly (nb untitledWorld) \<and>
      storageId (nb w') = storageId (nb untitledWorld)" by blast
  with w' f show ?thesis by auto
qed

section \<open>Properties of the editor\<close>

lemma notifyCellsComplete_defined:
  "\<exists>w'. notifyCellsComplete (map Some rs) w = Returned w' \<and> nb w' = nb w \<and> trace w' = trace w \<and>
         fresh w' = fresh w"
proof (induction rs arbitrary: w)
  case Nil
  then show ?case by simp
next
  case (Cons r rs)
  from Cons[of "cell_notifyCodeEvalComplete r w"] show ?case
    by (simp add: cell_notifyCodeEvalComplete_def)
qed

lemma notifyCodeEvalComplete_defined:
  assumes "cells (nb w) = map Some rs"
  shows "\<exists>w'. notifyCodeEvalComplete w = Returned w' \<and> nb w' = (nb w)\<lparr>executing := False\<rparr> \<and>
           trace w' = trace w @ [Raise EvalCompleted]"
proof -
  obtain w1 where w1: "notifyCellsComplete (map Some rs) (w\<lparr>nb := (nb w)\<lparr>executing := False\<rparr>\<rparr>) = Returned w1"
     "nb w1 = nb (w\<lparr>nb := (nb w)\<lparr>executing := False\<rparr>\<rparr>)"
     "trace w1 = trace (w\<lparr>nb := (nb w)\<lparr>executing := False\<rparr>\<rparr>)"
    using notifyCellsComplete_defined[of rs "w\<lparr>nb := (nb w)\<lparr>executing := False\<rparr>\<rparr>"]
    by (elim exE conjE)
  then show ?thesis
    using assms by (simp add: notifyCodeEvalComplete_def andThen_def)
qed

lemma stop_and_complete:
  assumes "notebook ed = Some n" and "cells n = map Some rs"
  shows "\<exists>ed'. onEvaluationFinished (emit (StopEvaluation (instanceId n)) ed) = Returned ed' \<and>
           notebook ed' = Some (n\<lparr>executing := False\<rparr>) \<and>
           trace ed' = trace ed @ [StopEvaluation (instanceId n), Raise EvalCompleted]"
proof -
  define w where "w = open_world (emit (StopEvaluation (instanceId n)) ed) n"
  have c: "cells (nb w) = map Some rs" using assms by (simp add: w_def open_world_def)
  from notifyCodeEvalComplete_defined[OF c]
  obtain w' where w': "notifyCodeEvalComplete w = Returned w'" "nb w' = (nb w)\<lparr>executing := False\<rparr>"
     "trace w' = trace w @ [Raise EvalCompleted]"
    by (elim exE conjE)
  have n: "notebook (emit (StopEvaluation (instanceId n)) ed) = Some n"
    using assms by (simp add: emit_def)
  show ?thesis
    using w' n
    by (simp add: onEvaluationFinished_def onNotebook_def w_def[symmetric]
        close_world_def) (simp add: w_def open_world_def emit_def)
qed

lemma checkCanEvaluateNotebook_ok:
  assumes "working ed \<le> 0" and "notebook ed = Some n" and "\<not> readOnly n"
  shows "checkCanEvaluateNotebook ed = (True, ed)"
  using assms by (simp add: checkCanEvaluateNotebook_def isWorking_def)

text \<open>
  Claim C8, as amended. When the editor is not busy and holds a notebook that is not
  read-only, is executing and has no undefined slot, each of \<open>evaluateNotebook\<close>,
  \<open>evaluateToCell\<close> and \<open>evaluateSingleCell\<close> returns with the notebook no longer
  executing, and what it adds to the trace is the stop command to the engine followed by
  the completion event: no evaluation is sent to the engine.
\<close>

theorem evaluate_while_executing_stops:
  assumes "working ed \<le> 0" and "notebook ed = Some n" and "\<not> readOnly n" and "executing n"
    and "cells n = map Some rs"
  shows "\<forall>run \<in> {evaluateNotebook, evaluateToCell c, evaluateSingleCell c}.
           \<exists>ed'. run ed = Returned ed' \<and>
             notebook ed' = Some (n\<lparr>executing := False\<rparr>) \<and>
             trace ed' = trace ed @ [StopEvaluation (instanceId n), Raise EvalCompleted]"
  using assms stop_and_complete[OF assms(2,5)]
  by (simp add: evaluateNotebook_def evaluateToCell_def evaluateSingleCell_def
      checkCanEvaluateNotebook_ok)

theorem evaluate_while_executing_stops_witness:
  "\<exists>ed'. evaluateNotebook (exampleEditor executingNotebook 0) = Returned ed' \<and>
      notebook ed' = Some (executingNotebook\<lparr>executing := False\<rparr>) \<and>
      trace ed' = [StopEvaluation ''n1'', Raise EvalCompleted]"
proof -
  have a: "working (exampleEditor executingNotebook 0) \<le> 0"
    "notebook (exampleEditor executingNotebook 0) = Some executingNotebook"
    "\<not> readOnly executingNotebook" "executing executingNotebook"
    "cells executingNotebook = map Some [0, 1]"
    "instanceId executingNotebook = ''n1''" "trace (exampleEditor executingNotebook 0) = []"
    by (simp_all add: exampleEditor_def executingNotebook_def exampleNotebook_def)
  from evaluate_while_executing_stops[OF a(1-5), of 0] a(6,7) show ?thesis by simp
qed

text \<open>
  Claim C8 as stated fails while the editor is busy: with one task running, each of the
  three commands only warns "Already working!"; the engine is not told to stop and the
  notebook stays executing.
\<close>

theorem evaluate_while_busy_counterexample:
  "notebook (exampleEditor executingNotebook 1) = Some executingNotebook \<and>
   \<not> readOnly executingNotebook \<and> executing executingNotebook \<and>
   evaluateNotebook (exampleEditor executingNotebook 1)
     = Returned ((exampleEditor executingNotebook 1)\<lparr>trace := [Warn ''Already working!'']\<rparr>) \<and>
   evaluateToCell 1 (exampleEditor executingNotebook 1)
     = Returned ((exampleEditor executingNotebook 1)\<lparr>trace := [Warn ''Already working!'']\<rparr>) \<and>
   evaluateSingleCell 1 (exampleEditor executingNotebook 1)
     = Returned ((exampleEditor executingNotebook 1)\<lparr>trace := [Warn ''Already working!'']\<rparr>)"
  by (simp add: evaluateNotebook_def evaluateToCell_def evaluateSingleCell_def
      checkCanEvaluateNotebook_def isWorking_def emit_def exampleEditor_def executingNotebook_def
      exampleNotebook_def)

lemma findCellIndexFrom_found:
  assumes "\<forall>x\<in>set xs. c_id (h x) \<noteq> i" and "c_id (h r) = i"
  shows "findCellIndexFrom i (map Some (xs @ [r] @ ys)) k h = Inr (Some (k + length xs))"
  using assms by (induction xs arbitrary: k) auto

lemma findCellIndexFrom_absent:
  assumes "\<forall>x\<in>set rs. c_id (h x) \<noteq> i"
  shows "findCellIndexFrom i (map Some rs) k h = Inr None"
  using assms by (induction rs arbitrary: k) auto

lemma findCell_found:
  assumes "cells (nb w) = map Some (xs @ [r] @ ys)" and "\<forall>x\<in>set xs. c_id (heap w x) \<noteq> i"
    and "c_id (heap w r) = i"
  shows "findCell i w = Inr (Some r)"
  using assms findCellIndexFrom_found[of xs "heap w" i r ys 0]
  by (simp add: findCell_def findCellIndex_def nth_append)

lemma findCell_absent:
  assumes "cells (nb w) = map Some rs" and "\<forall>x\<in>set rs. c_id (heap w x) \<noteq> i"
  shows "findCell i w = Inr None"
  using assms findCellIndexFrom_absent[of rs "heap w" i 0]
  by (simp add: findCell_def findCellIndex_def)

lemma firstCodeCell_found:
  assumes "\<forall>x\<in>set xs. c_cellType (h x) \<noteq> Code" and "c_cellType (h r) = Code"
  shows "firstCodeCell (map Some (xs @ [r] @ ys)) h = Inr (Some r)"
  using assms by (induction xs) auto

lemma firstCodeCell_absent:
  assumes "\<forall>x\<in>set rs. c_cellType (h x) \<noteq> Code"
  shows "firstCodeCell (map Some rs) h = Inr None"
  using assms by (induction rs) auto

lemma findNamedCell_found:
  assumes "notebook ed = Some n" and "cells n = map Some (xs @ [r] @ ys)"
    and "i \<noteq> []" and "\<forall>x\<in>set xs. c_id (heap ed x) \<noteq> i" and "c_id (heap ed r) = i"
  shows "findNamedCell (Some i) ed = Inr (Some r)"
  using assms findCell_found[of "open_world ed n" xs r ys i]
  by (simp add: findNamedCell_def open_world_def)

lemma findNamedCell_fallback:
  assumes "notebook ed = Some n" and "cells n = map Some rs"
    and "cellId = None \<or> cellId = Some [] \<or>
         (\<exists>i. cellId = Some i \<and> (\<forall>x\<in>set rs. c_id (heap ed x) \<noteq> i))"
  shows "findNamedCell cellId ed = Inr None"
proof (cases cellId)
  case None
  then show ?thesis by (simp add: findNamedCell_def)
next
  case (Some i)
  show ?thesis
  proof (cases "i = []")
    case True
    with Some show ?thesis by (simp add: findNamedCell_def)
  next
    case False
    with Some assms(3) have "\<forall>x\<in>set rs. c_id (heap ed x) \<noteq> i" by simp
    then have "findCell i (open_world ed n) = Inr None"
      using findCell_absent[of "open_world ed n" rs i] assms(2) by (simp add: open_world_def)
    with Some False assms(1) show ?thesis by (simp add: findNamedCell_def)
  qed
qed

lemma reportError_first_code_cell:
  assumes "notebook ed = Some n" and "cells n = map Some (xs @ [r] @ ys)"
    and "findNamedCell cellId ed = Inr None"
    and "\<forall>x\<in>set xs. c_cellType (heap ed x) \<noteq> Code" and "c_cellType (heap ed r) = Code"
  shows "reportError cellId err ed
           = Returned (ed\<lparr>heap := (heap ed)(r := cell_addError err (heap ed r))\<rparr>)"
  using assms firstCodeCell_found[of xs "heap ed" r ys]
  by (simp add: reportError_def addErrorTo_def)

lemma reportError_no_code_cell:
  assumes "notebook ed = Some n" and "cells n = map Some rs"
    and "findNamedCell cellId ed = Inr None"
    and "\<forall>x\<in>set rs. c_cellType (heap ed x) \<noteq> Code"
  shows "reportError cellId err ed
           = Returned (ed\<lparr>trace := trace ed @ [LogError (''receive-error: Failed to find cell ''
                 @ showCellId cellId @ '', error = '' @ err)]\<rparr>)"
  using assms firstCodeCell_absent[of rs "heap ed"]
  by (simp add: reportError_def emit_def del: append.simps)

text \<open>
  Claim C9. For a receive-error event on an editor whose notebook has no undefined slot:
  when a non-empty cell id is given and a cell has it, the error is added to the first
  such cell; when no cell id is given, or it is empty, or no cell has it, the error is
  added to the first code cell of the sequence; and when in that case the notebook has no
  code cell, the error is logged and the store of cells is the one before the event.
\<close>

theorem reportError_routing:
  assumes "notebook ed = Some n" and "cells n = map Some rs"
  shows "(\<forall>i xs r ys. cellId = Some i \<and> i \<noteq> [] \<and> rs = xs @ [r] @ ys \<and> c_id (heap ed r) = i \<and>
            (\<forall>x\<in>set xs. c_id (heap ed x) \<noteq> i) \<longrightarrow>
            onEvaluatorEvent (ReceiveError cellId err) ed
              = Returned (ed\<lparr>heap := (heap ed)(r := cell_addError err (heap ed r))\<rparr>)) \<and>
         (cellId = None \<or> cellId = Some [] \<or>
            (\<exists>i. cellId = Some i \<and> (\<forall>x\<in>set rs. c_id (heap ed x) \<noteq> i)) \<longrightarrow>
            (\<forall>xs r ys. rs = xs @ [r] @ ys \<and> c_cellType (heap ed r) = Code \<and>
               (\<forall>x\<in>set xs. c_cellType (heap ed x) \<noteq> Code) \<longrightarrow>
               onEvaluatorEvent (ReceiveError cellId err) ed
                 = Returned (ed\<lparr>heap := (heap ed)(r := cell_addError err (heap ed r))\<rparr>)) \<and>
            ((\<forall>x\<in>set rs. c_cellType (heap ed x) \<noteq> Code) \<longrightarrow>
               (\<exists>msg. onEvaluatorEvent (ReceiveError cellId err) ed
                  = Returned (ed\<lparr>trace := trace ed @ [LogError msg]\<rparr>))))"
proof -
  have a: "\<forall>i xs r ys. cellId = Some i \<and> i \<noteq> [] \<and> rs = xs @ [r] @ ys \<and> c_id (heap ed r) = i \<and>
            (\<forall>x\<in>set xs. c_id (heap ed x) \<noteq> i) \<longrightarrow>
            onEvaluatorEvent (ReceiveError cellId err) ed
              = Returned (ed\<lparr>heap := (heap ed)(r := cell_addError err (heap ed r))\<rparr>)"
  proof (intro allI impI)
    fix i xs r ys
    assume h: "cellId = Some i \<and> i \<noteq> [] \<and> rs = xs @ [r] @ ys \<and> c_id (heap ed r) = i \<and>
            (\<forall>x\<in>set xs. c_id (heap ed x) \<noteq> i)"
    then have "findNamedCell cellId ed = Inr (Some r)"
      using findNamedCell_found[OF assms(1), of xs r ys i] assms(2) by simp
    then show "onEvaluatorEvent (ReceiveError cellId err) ed
              = Returned (ed\<lparr>heap := (heap ed)(r := cell_addError err (heap ed r))\<rparr>)"
      by (simp add: reportError_def addErrorTo_def)
  qed
  have b: "cellId = None \<or> cellId = Some [] \<or>
            (\<exists>i. cellId = Some i \<and> (\<forall>x\<in>set rs. c_id (heap ed x) \<noteq> i)) \<longrightarrow>
            (\<forall>xs r ys. rs = xs @ [r] @ ys \<and> c_cellType (heap ed r) = Code \<and>
               (\<forall>x\<in>set xs. c_cellType (heap ed x) \<noteq> Code) \<longrightarrow>
               onEvaluatorEvent (ReceiveError cellId err) ed
                 = Returned (ed\<lparr>heap := (heap ed)(r := cell_addError err (heap ed r))\<rparr>)) \<and>
            ((\<forall>x\<in>set rs. c_cellType (heap ed x) \<noteq> Code) \<longrightarrow>
               (\<exists>msg. onEvaluatorEvent (ReceiveError cellId err) ed
                  = Returned (ed\<lparr>trace := trace ed @ [LogError msg]\<rparr>)))"
  proof
    assume f: "cellId = None \<or> cellId = Some [] \<or>
            (\<exists>i. cellId = Some i \<and> (\<forall>x\<in>set rs. c_id (heap ed x) \<noteq> i))"
    have r: "findNamedCell cellId ed = Inr None"
      using findNamedCell_fallback[OF assms f] .
    have c1: "\<forall>xs r ys. rs = xs @ [r] @ ys \<and> c_cellType (heap ed r) = Code \<and>
               (\<forall>x\<in>set xs. c_cellType (heap ed x) \<noteq> Code) \<longrightarrow>
               onEvaluatorEvent (ReceiveError cellId err) ed
                 = Returned (ed\<lparr>heap := (heap ed)(r := cell_addError err (heap ed r))\<rparr>)"
      using reportError_first_code_cell[OF assms(1) _ r] assms(2) by simp
    have c2: "(\<forall>x\<in>set rs. c_cellType (heap ed x) \<noteq> Code) \<longrightarrow>
               (\<exists>msg. onEvaluatorEvent (ReceiveError cellId err) ed
                  = Returned (ed\<lparr>trace := trace ed @ [LogError msg]\<rparr>))"
      using reportError_no_code_cell[OF assms r] by auto
    from c1 c2 show "(\<forall>xs r ys. rs = xs @ [r] @ ys \<and> c_cellType (heap ed r) = Code \<and>
               (\<forall>x\<in>set xs. c_cellType (heap ed x) \<noteq> Code) \<longrightarrow>
               onEvaluatorEvent (ReceiveError cellId err) ed
                 = Returned (ed\<lparr>heap := (heap ed)(r := cell_addError err (heap ed r))\<rparr>)) \<and>
            ((\<forall>x\<in>set rs. c_cellType (heap ed x) \<noteq> Code) \<longrightarrow>
               (\<exists>msg. onEvaluatorEvent (ReceiveError cellId err) ed
                  = Returned (ed\<lparr>trace := trace ed @ [LogError msg]\<rparr>)))" by (intro conjI)
  qed
  from a b show ?thesis by (intro conjI)
qed


theorem reportError_routing_witness:
  "onEvaluatorEvent (ReceiveError (Some ''A3'') ''boom'') threeCellEditor
     = Returned (threeCellEditor\<lparr>heap := (heap threeCellEditor)
                   (2 := cell_addError ''boom'' (heap threeCellEditor 2))\<rparr>) \<and>
   onEvaluatorEvent (ReceiveError None ''boom'') threeCellEditor
     = Returned (threeCellEditor\<lparr>heap := (heap threeCellEditor)
                   (1 := cell_addError ''boom'' (heap threeCellEditor 1))\<rparr>) \<and>
   (\<exists>msg. onEvaluatorEvent (ReceiveError None ''boom'') markdownOnlyEditor
             = Returned (markdownOnlyEditor\<lparr>trace := trace markdownOnlyEditor @ [LogError msg]\<rparr>))"
proof -
  have n: "notebook threeCellEditor = Some (exampleNotebook [Some 0, Some 1, Some 2])"
    by (simp add: threeCellEditor_def)
  have c: "cells (exampleNotebook [Some 0, Some 1, Some 2]) = map Some [0, 1, 2]"
    by (simp add: exampleNotebook_def)
  have h: "heap threeCellEditor = exampleHeap" by (simp add: threeCellEditor_def)
  have p1: "Some ''A3'' = Some ''A3'' \<and> ''A3'' \<noteq> [] \<and> [0, 1, 2] = [0, 1] @ [2::nat] @ [] \<and>
      c_id (heap threeCellEditor 2) = ''A3'' \<and>
      (\<forall>x\<in>set [0, 1]. c_id (heap threeCellEditor x) \<noteq> ''A3'')"
    by (simp add: h exampleHeap_def mkCell_def)
  have a: "onEvaluatorEvent (ReceiveError (Some ''A3'') ''boom'') threeCellEditor
     = Returned (threeCellEditor\<lparr>heap := (heap threeCellEditor)
                   (2 := cell_addError ''boom'' (heap threeCellEditor 2))\<rparr>)"
    using reportError_routing[OF n c, of "Some ''A3''" "''boom''", THEN conjunct1, rule_format,
        of "''A3''" "[0, 1]" 2 "[]"] p1 by blast
  have p2: "[0, 1, 2] = [0] @ [1::nat] @ [2] \<and> c_cellType (heap threeCellEditor 1) = Code \<and>
      (\<forall>x\<in>set [0]. c_cellType (heap threeCellEditor x) \<noteq> Code)"
    by (simp add: h exampleHeap_def mkCell_def)
  have b: "onEvaluatorEvent (ReceiveError None ''boom'') threeCellEditor
     = Returned (threeCellEditor\<lparr>heap := (heap threeCellEditor)
                   (1 := cell_addError ''boom'' (heap threeCellEditor 1))\<rparr>)"
    using reportError_routing[OF n c, of None "''boom''", THEN conjunct2] p2 by blast
  have n': "notebook markdownOnlyEditor = Some (exampleNotebook [Some 0])"
    by (simp add: markdownOnlyEditor_def)
  have c': "cells (exampleNotebook [Some 0]) = map Some [0]"
    by (simp add: exampleNotebook_def)
  have p3: "\<forall>x\<in>set [0]. c_cellType (heap markdownOnlyEditor x) \<noteq> Code"
    by (simp add: markdownOnlyEditor_def exampleHeap_def mkCell_def)
  have d: "\<exists>msg. onEvaluatorEvent (ReceiveError None ''boom'') markdownOnlyEditor
             = Returned (markdownOnlyEditor\<lparr>trace := trace markdownOnlyEditor @ [LogError msg]\<rparr>)"
    using reportError_routing[OF n' c', of None "''boom''", THEN conjunct2] p3 by blast
  from a b d show ?thesis by (intro conjI)
qed

end
